theory Spec2Isabelle
  imports Complex_Main "HOL-Library.Multiset"
begin

section \<open>The bot lifecycle manager of the admin panel (admin-panel/app.py)\<close>

text \<open>
  The development embeds the functions of \<^verbatim>\<open>admin-panel/app.py\<close> that create and reset
  bot airlines (\<^verbatim>\<open>reset_bots\<close>, \<^verbatim>\<open>reset_single_bot\<close>, \<^verbatim>\<open>create_bot\<close>), the name lookup
  \<^verbatim>\<open>get_country_for_airline\<close> and the classifier \<^verbatim>\<open>determine_personality\<close>.
\<close>

subsection \<open>Python values handed to the classifier\<close>

text \<open>
  \<^verbatim>\<open>determine_personality\<close> receives whatever the database driver or a dictionary lookup
  returned. The cases that the function distinguishes are: \<^verbatim>\<open>None\<close>; a number (int, float,
  Decimal); the empty string; a non-empty string that \<^verbatim>\<open>float()\<close> parses; a non-empty
  string that \<^verbatim>\<open>float()\<close> rejects with ValueError; and a truthy object of another type,
  which \<^verbatim>\<open>float()\<close> rejects with TypeError. Numbers are idealised as reals: rounding and
  overflow of IEEE doubles are outside the model.
\<close>

datatype pyval =
    PyNone
  | PyNum real
  | PyEmptyStr
  | PyNumStr real
  | PyBadStr
  | PyObj

datatype py_error = ValueError | TypeError

datatype personality = PREMIUM | BUDGET | CONSERVATIVE | AGGRESSIVE | REGIONAL | BALANCED

text \<open>Python truthiness, as \<^verbatim>\<open>if balance\<close> tests it.\<close>

fun truthy :: "pyval \<Rightarrow> bool" where
  "truthy PyNone = False"
| "truthy (PyNum r) = (r \<noteq> 0)"
| "truthy PyEmptyStr = False"
| "truthy (PyNumStr r) = True"
| "truthy PyBadStr = True"
| "truthy PyObj = True"

text \<open>\<^verbatim>\<open>float(x)\<close>: the number, or the exception raised.\<close>

fun py_float :: "pyval \<Rightarrow> py_error + real" where
  "py_float PyNone = Inl TypeError"
| "py_float (PyNum r) = Inr r"
| "py_float PyEmptyStr = Inl ValueError"
| "py_float (PyNumStr r) = Inr r"
| "py_float PyBadStr = Inl ValueError"
| "py_float PyObj = Inl TypeError"

text \<open>\<^verbatim>\<open>float(x) if x else 0\<close>\<close>

definition float_or_zero :: "pyval \<Rightarrow> py_error + real" where
  "float_or_zero x = (if truthy x then py_float x else Inr 0)"

text \<open>
  The three conversions of lines 744-751 stand in one \<^verbatim>\<open>try\<close> block: they run in order,
  the first exception leaves the block, and the handler for ValueError and TypeError sets
  all three variables to zero.
\<close>

definition convert_inputs :: "pyval \<Rightarrow> pyval \<Rightarrow> pyval \<Rightarrow> real \<times> real \<times> real" where
  "convert_inputs balance reputation service_quality =
     (case float_or_zero balance of
        Inl e \<Rightarrow> (0, 0, 0)
      | Inr b \<Rightarrow>
          (case float_or_zero reputation of
             Inl e \<Rightarrow> (0, 0, 0)
           | Inr r \<Rightarrow>
               (case float_or_zero service_quality of
                  Inl e \<Rightarrow> (0, 0, 0)
                | Inr q \<Rightarrow> (b, r, q))))"

text \<open>The decision chain of lines 753-766, on the converted numbers.\<close>

definition decide :: "real \<Rightarrow> real \<Rightarrow> real \<Rightarrow> personality" where
  "decide balance reputation service_quality =
     (let cash_ratio = balance / 10000000 in
      if service_quality > 70 then PREMIUM
      else if cash_ratio < 2 \<and> reputation < 30 then BUDGET
      else if reputation > 70 then CONSERVATIVE
      else if cash_ratio > 10 then AGGRESSIVE
      else if service_quality < 40 then REGIONAL
      else BALANCED)"

definition determine_personality :: "pyval \<Rightarrow> pyval \<Rightarrow> pyval \<Rightarrow> personality" where
  "determine_personality balance reputation service_quality =
     (case convert_inputs balance reputation service_quality of
        (b, r, q) \<Rightarrow> decide b r q)"

text \<open>
  The classifier as section 4.5 of the specification words it: six rules, the first match
  wins.
\<close>

datatype rule = Rule "real \<Rightarrow> real \<Rightarrow> real \<Rightarrow> bool" personality

fun first_match :: "rule list \<Rightarrow> real \<Rightarrow> real \<Rightarrow> real \<Rightarrow> personality option" where
  "first_match [] b r q = None"
| "first_match (Rule c p # rs) b r q = (if c b r q then Some p else first_match rs b r q)"

definition spec_rules :: "rule list" where
  "spec_rules =
     [Rule (\<lambda>b r q. q > 70) PREMIUM,
      Rule (\<lambda>b r q. b / 10000000 < 2 \<and> r < 30) BUDGET,
      Rule (\<lambda>b r q. r > 70) CONSERVATIVE,
      Rule (\<lambda>b r q. b / 10000000 > 10) AGGRESSIVE,
      Rule (\<lambda>b r q. q < 40) REGIONAL,
      Rule (\<lambda>b r q. True) BALANCED]"

text \<open>An argument is bad when its conversion raises, missing when it is falsy.\<close>

definition raises :: "pyval \<Rightarrow> bool" where
  "raises x = (case float_or_zero x of Inl e \<Rightarrow> True | Inr r \<Rightarrow> False)"

subsection \<open>The tables\<close>

text \<open>
  The schema is not part of the file: each table is modelled with the columns that the SQL
  text of the handlers names, a table is the list of its rows, and no key or foreign-key
  constraint is built in. Column comparisons are exact.
\<close>

record airline_row =
  airline_id :: int
  airline_name :: string
  airline_type :: int

record info_row =
  info_airline :: int
  info_balance :: int
  info_reputation :: real
  info_service_quality :: real
  info_target_service_quality :: real
  info_country_code :: "string option"
  info_initialized :: bool

record base_row =
  base_airport :: int
  base_airline :: int
  base_scale :: int
  base_founded_cycle :: int
  base_headquarter :: bool
  base_country :: string

record airplane_row =
  plane_id :: int
  plane_model :: int
  plane_owner :: int
  plane_constructed_cycle :: int
  plane_purchased_cycle :: int
  plane_condition :: real
  plane_depreciation_rate :: int
  plane_value :: int
  plane_is_sold :: bool
  plane_dealer_ratio :: real
  plane_home :: "int option"
  plane_purchase_rate :: real
  plane_version :: int

record configuration_row =
  configuration_airplane :: int

record link_row =
  link_id :: int
  link_airline :: int

record assignment_row =
  assignment_link :: int

record consumption_row =
  consumption_link :: int

record appeal_row =
  appeal_airline :: int

record airport_row =
  airport_id :: int
  airport_iata :: string
  airport_country_code :: string
  airport_size :: int
  airport_population :: int

record model_row =
  model_id :: int
  model_name :: string
  model_price :: int

record db =
  airline :: "airline_row list"
  airline_info :: "info_row list"
  airline_base :: "base_row list"
  airplane :: "airplane_row list"
  airplane_configuration :: "configuration_row list"
  link :: "link_row list"
  link_assignment :: "assignment_row list"
  link_consumption :: "consumption_row list"
  airline_appeal :: "appeal_row list"
  airport :: "airport_row list"
  airplane_model :: "model_row list"
  cycle :: "int list"

subsection \<open>Name-based country inference\<close>

text \<open>
  \<^verbatim>\<open>AIRLINE_COUNTRY_MAP\<close> (lines 941-968), in the insertion order that iteration over a
  Python dictionary follows. The third key holds the five bytes that the file stores
  between \<^verbatim>\<open>Aerom\<close> and \<^verbatim>\<open>xico\<close>.
\<close>

definition AIRLINE_COUNTRY_MAP :: "(string \<times> string) list" where
  "AIRLINE_COUNTRY_MAP =
     [(''Aeroflot'', ''RU''),
      (''Aeromexico'', ''MX''),
      (''Aerom'' @ [CHR 0xE2, CHR 0x88, CHR 0x9A, CHR 0xC2, CHR 0xA9] @ ''xico'', ''MX''),
      (''Air Canada'', ''CA''),
      (''Air China'', ''CN''),
      (''Air France'', ''FR''),
      (''Air India'', ''IN''),
      (''American Airlines'', ''US''),
      (''American Supersonic'', ''US''),
      (''Capital Airways'', ''US''),
      (''Egyptair'', ''EG''),
      (''EuroWings'', ''DE''),
      (''Garuda Indonesia'', ''ID''),
      (''Japan Airlines'', ''JP''),
      (''Kiwi Air'', ''NZ''),
      (''LATAM Brasil'', ''BR''),
      (''MediFlight'', ''US''),
      (''Mineral Express'', ''US''),
      (''Ocean Freight'', ''US''),
      (''Pacific Island'', ''US''),
      (''Petroleum Air'', ''US''),
      (''Qantas'', ''AU''),
      (''Scandinavian Airlines'', ''DK''),
      (''TechConnect'', ''US''),
      (''Turkish Airlines'', ''TR''),
      (''Vietnam Airlines'', ''VN'')]"

text \<open>\<^verbatim>\<open>str.lower()\<close> on ASCII letters; other characters are left as they are.\<close>

definition lower_char :: "char \<Rightarrow> char" where
  "lower_char c =
     (case map_of (zip ''ABCDEFGHIJKLMNOPQRSTUVWXYZ'' ''abcdefghijklmnopqrstuvwxyz'') c of
        None \<Rightarrow> c
      | Some l \<Rightarrow> l)"

definition lower :: "string \<Rightarrow> string" where
  "lower s = map lower_char s"

text \<open>\<^verbatim>\<open>p in s\<close> on strings: \<open>p\<close> occurs in \<open>s\<close> as a contiguous run.\<close>

fun starts_with :: "string \<Rightarrow> string \<Rightarrow> bool" where
  "starts_with s [] = True"
| "starts_with [] (c # p) = False"
| "starts_with (d # s) (c # p) = (d = c \<and> starts_with s p)"

fun py_in :: "string \<Rightarrow> string \<Rightarrow> bool" where
  "py_in p [] = (p = [])"
| "py_in p (d # s) = (starts_with (d # s) p \<or> py_in p s)"

text \<open>The loop of \<^verbatim>\<open>get_country_for_airline\<close> (lines 970-975), over any table.\<close>

fun country_lookup :: "(string \<times> string) list \<Rightarrow> string \<Rightarrow> string option" where
  "country_lookup [] name = None"
| "country_lookup ((airline_prefix, country_code) # rest) name =
     (if py_in (lower airline_prefix) (lower name) then Some country_code
      else country_lookup rest name)"

definition get_country_for_airline :: "string \<Rightarrow> string option" where
  "get_country_for_airline name = country_lookup AIRLINE_COUNTRY_MAP name"

subsection \<open>Queries\<close>

text \<open>Truthiness of a nullable string column and of a nullable id.\<close>

definition truthy_str :: "string option \<Rightarrow> bool" where
  "truthy_str c = (case c of None \<Rightarrow> False | Some s \<Rightarrow> s \<noteq> [])"

definition truthy_id :: "int option \<Rightarrow> bool" where
  "truthy_id i = (case i of None \<Rightarrow> False | Some n \<Rightarrow> n \<noteq> 0)"

definition fetchone :: "'a list \<Rightarrow> 'a option" where
  "fetchone rows = (case rows of [] \<Rightarrow> None | r # rest \<Rightarrow> Some r)"

text \<open>
  A row of \<^verbatim>\<open>airline a LEFT JOIN airline_info ai ON a.id = ai.airline\<close>, with the columns
  the handlers select: an airline without a profile row gives one row with a NULL
  country code.
\<close>

record bot_row =
  bot_id :: int
  bot_name :: string
  bot_airline_type :: int
  bot_country_code :: "string option"

definition join_info :: "db \<Rightarrow> airline_row \<Rightarrow> bot_row list" where
  "join_info d a =
     (case filter (\<lambda>i. info_airline i = airline_id a) (airline_info d) of
        [] \<Rightarrow> [\<lparr>bot_id = airline_id a, bot_name = airline_name a,
                bot_airline_type = airline_type a, bot_country_code = None\<rparr>]
      | infos \<Rightarrow> map (\<lambda>i. \<lparr>bot_id = airline_id a, bot_name = airline_name a,
                bot_airline_type = airline_type a,
                bot_country_code = info_country_code i\<rparr>) infos)"

text \<open>Lines 988-993: \<^verbatim>\<open>... WHERE a.airline_type = 2\<close>.\<close>

definition select_bots :: "db \<Rightarrow> bot_row list" where
  "select_bots d = concat (map (join_info d) (filter (\<lambda>a. airline_type a = 2) (airline d)))"

text \<open>Lines 1130-1135: \<^verbatim>\<open>... WHERE a.id = %s\<close>.\<close>

definition select_airline :: "int \<Rightarrow> db \<Rightarrow> bot_row list" where
  "select_airline i d = concat (map (join_info d) (filter (\<lambda>a. airline_id a = i) (airline d)))"

text \<open>
  \<^verbatim>\<open>SELECT MAX(cycle) as current_cycle FROM cycle\<close> and the expression
  \<^verbatim>\<open>cycle_result['current_cycle'] if cycle_result and cycle_result['current_cycle'] else 0\<close>:
  the maximum, or 0 when the table is empty (NULL) or the maximum is 0.
\<close>

definition max_cycle :: "db \<Rightarrow> int option" where
  "max_cycle d = (case cycle d of [] \<Rightarrow> None | c # cs \<Rightarrow> Some (fold max cs c))"

definition current_cycle :: "db \<Rightarrow> int" where
  "current_cycle d = (case max_cycle d of None \<Rightarrow> 0 | Some c \<Rightarrow> if c \<noteq> 0 then c else 0)"

text \<open>
  \<^verbatim>\<open>SELECT id, name, price FROM airplane_model WHERE price < 40000000 ORDER BY price\<close>;
  rows of equal price keep their table order.
\<close>

definition cheap_models :: "db \<Rightarrow> model_row list" where
  "cheap_models d = sort_key model_price (filter (\<lambda>m. model_price m < 40000000) (airplane_model d))"

text \<open>
  \<^verbatim>\<open>ORDER BY airport_size DESC, population DESC LIMIT 1\<close>: \<open>ranks_before a b\<close> when the
  ordering puts \<open>a\<close> strictly before \<open>b\<close>; among rows that tie on both columns the first in
  table order is returned.
\<close>

definition ranks_before :: "airport_row \<Rightarrow> airport_row \<Rightarrow> bool" where
  "ranks_before a b =
     (airport_size a > airport_size b
      \<or> (airport_size a = airport_size b \<and> airport_population a > airport_population b))"

fun first_ranked :: "airport_row list \<Rightarrow> airport_row option" where
  "first_ranked [] = None"
| "first_ranked (a # rest) =
     (case first_ranked rest of
        None \<Rightarrow> Some a
      | Some b \<Rightarrow> if ranks_before b a then Some b else Some a)"

definition largest_airport :: "string \<Rightarrow> db \<Rightarrow> airport_row option" where
  "largest_airport country_code d =
     first_ranked (filter (\<lambda>a. airport_country_code a = country_code) (airport d))"

text \<open>\<^verbatim>\<open>SELECT id, country_code FROM airport WHERE iata = %s\<close>, then \<^verbatim>\<open>fetchone()\<close>.\<close>

definition airport_by_iata :: "string \<Rightarrow> db \<Rightarrow> airport_row option" where
  "airport_by_iata iata d = fetchone (filter (\<lambda>a. airport_iata a = iata) (airport d))"

subsection \<open>Statements\<close>

text \<open>
  The statements that the three handlers send through \<^verbatim>\<open>cursor.execute\<close> and
  \<^verbatim>\<open>conn.commit\<close>. An INSERT carries the row it adds.
\<close>

datatype stmt =
    SelectBots
  | SelectAirline int
  | SelectMaxCycle
  | SelectCheapModels
  | DeleteLinkAssignments int
  | DeleteLinkConsumptions int
  | DeleteLinks int
  | DeleteAirplaneConfigurations int
  | DeleteAirplanes int
  | DeleteBases int
  | DeleteAppeal int
  | UpdateInfoCountry string int
  | UpdateInfo int
  | SelectLargestAirport string
  | SelectAirportByIata string
  | InsertBase base_row
  | InsertAirplane airplane_row
  | InsertAirline airline_row
  | InsertInfo info_row
  | Commit

text \<open>\<^verbatim>\<open>SELECT id FROM link WHERE airline = %s\<close> and the same for airplanes.\<close>

definition link_ids :: "int \<Rightarrow> db \<Rightarrow> int list" where
  "link_ids a d = map link_id (filter (\<lambda>l. link_airline l = a) (link d))"

definition airplane_ids :: "int \<Rightarrow> db \<Rightarrow> int list" where
  "airplane_ids a d = map plane_id (filter (\<lambda>p. plane_owner p = a) (airplane d))"

text \<open>The rows a statement leaves in the tables.\<close>

fun apply_stmt :: "stmt \<Rightarrow> db \<Rightarrow> db" where
  "apply_stmt (DeleteLinkAssignments a) d =
     d\<lparr>link_assignment := filter (\<lambda>r. assignment_link r \<notin> set (link_ids a d)) (link_assignment d)\<rparr>"
| "apply_stmt (DeleteLinkConsumptions a) d =
     d\<lparr>link_consumption := filter (\<lambda>r. consumption_link r \<notin> set (link_ids a d)) (link_consumption d)\<rparr>"
| "apply_stmt (DeleteLinks a) d = d\<lparr>link := filter (\<lambda>l. link_airline l \<noteq> a) (link d)\<rparr>"
| "apply_stmt (DeleteAirplaneConfigurations a) d =
     d\<lparr>airplane_configuration :=
         filter (\<lambda>r. configuration_airplane r \<notin> set (airplane_ids a d)) (airplane_configuration d)\<rparr>"
| "apply_stmt (DeleteAirplanes a) d = d\<lparr>airplane := filter (\<lambda>p. plane_owner p \<noteq> a) (airplane d)\<rparr>"
| "apply_stmt (DeleteBases a) d = d\<lparr>airline_base := filter (\<lambda>b. base_airline b \<noteq> a) (airline_base d)\<rparr>"
| "apply_stmt (DeleteAppeal a) d = d\<lparr>airline_appeal := filter (\<lambda>r. appeal_airline r \<noteq> a) (airline_appeal d)\<rparr>"
| "apply_stmt (UpdateInfoCountry c a) d =
     d\<lparr>airline_info :=
         map (\<lambda>i. if info_airline i = a
                   then i\<lparr>info_balance := 200000, info_reputation := 0,
                          info_service_quality := 50, info_country_code := Some c\<rparr>
                   else i) (airline_info d)\<rparr>"
| "apply_stmt (UpdateInfo a) d =
     d\<lparr>airline_info :=
         map (\<lambda>i. if info_airline i = a
                   then i\<lparr>info_balance := 200000, info_reputation := 0,
                          info_service_quality := 50\<rparr>
                   else i) (airline_info d)\<rparr>"
| "apply_stmt (InsertBase b) d = d\<lparr>airline_base := airline_base d @ [b]\<rparr>"
| "apply_stmt (InsertAirplane p) d = d\<lparr>airplane := airplane d @ [p]\<rparr>"
| "apply_stmt (InsertAirline a) d = d\<lparr>airline := airline d @ [a]\<rparr>"
| "apply_stmt (InsertInfo i) d = d\<lparr>airline_info := airline_info d @ [i]\<rparr>"
| "apply_stmt SelectBots d = d"
| "apply_stmt (SelectAirline a) d = d"
| "apply_stmt SelectMaxCycle d = d"
| "apply_stmt SelectCheapModels d = d"
| "apply_stmt (SelectLargestAirport c) d = d"
| "apply_stmt (SelectAirportByIata c) d = d"
| "apply_stmt Commit d = d"

text \<open>\<^verbatim>\<open>cursor.rowcount\<close> after the three DELETEs whose count the handlers read.\<close>

fun rowcount :: "stmt \<Rightarrow> db \<Rightarrow> nat" where
  "rowcount (DeleteLinks a) d = length (filter (\<lambda>l. link_airline l = a) (link d))"
| "rowcount (DeleteAirplanes a) d = length (filter (\<lambda>p. plane_owner p = a) (airplane d))"
| "rowcount (DeleteBases a) d = length (filter (\<lambda>b. base_airline b = a) (airline_base d))"
| "rowcount q d = 0"

subsection \<open>The connection\<close>

text \<open>
  A connection with \<^verbatim>\<open>autocommit = False\<close>: statements change the working copy,
  \<^verbatim>\<open>commit\<close> makes the working copy the committed state, \<^verbatim>\<open>rollback\<close> and \<^verbatim>\<open>close\<close>
  drop what was not committed. The session also holds what the handler does not control:
  the operation at which the storage fails, if any (\<open>fail_at\<close>, counted over the
  \<^verbatim>\<open>execute\<close> and \<^verbatim>\<open>commit\<close> calls of the request, from 0), the numbers that
  \<^verbatim>\<open>random.sample\<close> draws, and the AUTO_INCREMENT counters of the two tables whose ids the
  engine assigns. Setting \<^verbatim>\<open>autocommit\<close>, \<^verbatim>\<open>rollback\<close> and \<^verbatim>\<open>close\<close> are taken not to
  fail (the handlers ignore a failing \<^verbatim>\<open>rollback\<close>, and \<^verbatim>\<open>close\<close> follows it).
\<close>

datatype db_error = StorageError

record session =
  committed :: db
  working :: db
  executed :: "stmt list"
  fail_at :: "nat option"
  rng :: "nat list"
  airline_auto_increment :: int
  airplane_auto_increment :: int

type_synonym 'a io = "session \<Rightarrow> (db_error \<times> session) + ('a \<times> session)"

definition return_io :: "'a \<Rightarrow> 'a io" where
  "return_io a s = Inr (a, s)"

text \<open>Sequencing: an exception leaves the rest of the block unexecuted.\<close>

definition and_then :: "'a io \<Rightarrow> ('a \<Rightarrow> 'b io) \<Rightarrow> 'b io" where
  "and_then m f s = (case m s of Inl es \<Rightarrow> Inl es | Inr (a, s') \<Rightarrow> f a s')"

definition storage_fails :: "session \<Rightarrow> bool" where
  "storage_fails s = (fail_at s = Some (length (executed s)))"

text \<open>\<^verbatim>\<open>cursor.execute(q)\<close>; the value is \<^verbatim>\<open>cursor.rowcount\<close>.\<close>

definition execute :: "stmt \<Rightarrow> nat io" where
  "execute q s =
     (if storage_fails s then Inl (StorageError, s)
      else Inr (rowcount q (working s),
                s\<lparr>working := apply_stmt q (working s), executed := executed s @ [q]\<rparr>))"

text \<open>\<^verbatim>\<open>cursor.execute(q)\<close> for a SELECT, followed by the fetch of its result.\<close>

definition query :: "stmt \<Rightarrow> (db \<Rightarrow> 'a) \<Rightarrow> 'a io" where
  "query q result = and_then (execute q) (\<lambda>n s. Inr (result (working s), s))"

definition commit :: "unit io" where
  "commit s =
     (if storage_fails s then Inl (StorageError, s)
      else Inr ((), s\<lparr>committed := working s, executed := executed s @ [Commit]\<rparr>))"

definition rollback :: "session \<Rightarrow> session" where
  "rollback s = s\<lparr>working := committed s\<rparr>"

definition close :: "session \<Rightarrow> session" where
  "close s = s\<lparr>working := committed s\<rparr>"

text \<open>
  \<^verbatim>\<open>random.sample(population, k)\<close> is a library function: \<open>k\<close> draws without replacement,
  each taken from what is left of the population at the position the next random number
  selects.
\<close>

fun random_sample :: "nat list \<Rightarrow> 'a list \<Rightarrow> nat \<Rightarrow> 'a list" where
  "random_sample rs pool 0 = []"
| "random_sample rs pool (Suc k) =
     (if pool = [] then []
      else (let j = (case rs of [] \<Rightarrow> 0 | r # rest \<Rightarrow> r mod length pool)
            in pool ! j # random_sample (tl rs) (take j pool @ drop (Suc j) pool) k))"

definition sample_io :: "'a list \<Rightarrow> nat \<Rightarrow> 'a list io" where
  "sample_io pool k s = Inr (random_sample (rng s) pool k, s\<lparr>rng := drop k (rng s)\<rparr>)"

subsection \<open>Responses\<close>

text \<open>
  A message is an f-string: its literal pieces and the values put between them.
  \<open>Exc e\<close> stands for \<^verbatim>\<open>str(e)\<close>.
\<close>

datatype frag = Lit string | Num int | Exc db_error

record response =
  success :: bool
  http_status :: nat
  message :: "frag list"
  bots_reset :: "string list option"
  created_airline_id :: "int option"

definition error_response :: "db_error \<Rightarrow> response" where
  "error_response e =
     \<lparr>success = False, http_status = 500, message = [Exc e], bots_reset = None,
      created_airline_id = None\<rparr>"

text \<open>
  The frame of every handler: \<^verbatim>\<open>try: ... except Exception as e: conn.rollback(); return
  500 finally: conn.close()\<close>. It returns the response and the session as the request
  leaves it; the database after the request is its committed state.
\<close>

definition run_handler :: "response io \<Rightarrow> session \<Rightarrow> response \<times> session" where
  "run_handler body s =
     (case body s of
        Inr (resp, s') \<Rightarrow> (resp, close s')
      | Inl (e, s') \<Rightarrow> (error_response e, close (rollback s')))"

record env =
  fault :: "nat option"
  random_numbers :: "nat list"
  next_airline_id :: int
  next_airplane_id :: int

text \<open>\<^verbatim>\<open>get_db_connection()\<close> on the database \<open>d\<close>.\<close>

definition connect :: "env \<Rightarrow> db \<Rightarrow> session" where
  "connect e d =
     \<lparr>committed = d, working = d, executed = [], fail_at = fault e,
      rng = random_numbers e, airline_auto_increment = next_airline_id e,
      airplane_auto_increment = next_airplane_id e\<rparr>"

subsection \<open>Teardown and rebuild of one bot\<close>

text \<open>
  The INSERT of lines 1229-1234 (and 1091-1096, 1324-1329). The id is the table's
  AUTO_INCREMENT value.
\<close>

definition new_airplane :: "int \<Rightarrow> model_row \<Rightarrow> int \<Rightarrow> int \<Rightarrow> int option \<Rightarrow> airplane_row" where
  "new_airplane i m owner cyc home =
     \<lparr>plane_id = i, plane_model = model_id m, plane_owner = owner,
      plane_constructed_cycle = cyc, plane_purchased_cycle = cyc, plane_condition = 100,
      plane_depreciation_rate = 0, plane_value = model_price m, plane_is_sold = False,
      plane_dealer_ratio = 1, plane_home = home, plane_purchase_rate = 1, plane_version = 0\<rparr>"

definition insert_airplane :: "model_row \<Rightarrow> int \<Rightarrow> int \<Rightarrow> int option \<Rightarrow> nat io" where
  "insert_airplane m owner cyc home s =
     and_then (execute (InsertAirplane (new_airplane (airplane_auto_increment s) m owner cyc home)))
       (\<lambda>n s'. Inr (n, s'\<lparr>airplane_auto_increment := airplane_auto_increment s' + 1\<rparr>)) s"

text \<open>\<^verbatim>\<open>for model in selected_models: ...; aircraft_added += 1\<close>\<close>

fun insert_airplanes :: "model_row list \<Rightarrow> int \<Rightarrow> int \<Rightarrow> int option \<Rightarrow> nat \<Rightarrow> nat io" where
  "insert_airplanes [] owner cyc home added = return_io added"
| "insert_airplanes (m # ms) owner cyc home added =
     and_then (insert_airplane m owner cyc home)
       (\<lambda>n. insert_airplanes ms owner cyc home (added + 1))"

text \<open>Lines 1224-1235: \<^verbatim>\<open>if cheap_models: selected_models = random.sample(cheap_models, min(5, len(cheap_models)))\<close>.\<close>

definition add_random_airplanes :: "model_row list \<Rightarrow> int \<Rightarrow> int \<Rightarrow> int option \<Rightarrow> nat io" where
  "add_random_airplanes models owner cyc home =
     (if models \<noteq> [] then
        and_then (sample_io models (min 5 (length models)))
          (\<lambda>selected_models. insert_airplanes selected_models owner cyc home 0)
      else return_io 0)"

definition str_of :: "string option \<Rightarrow> string" where
  "str_of c = (case c of None \<Rightarrow> [] | Some s \<Rightarrow> s)"

definition new_base :: "int \<Rightarrow> int \<Rightarrow> int \<Rightarrow> string \<Rightarrow> base_row" where
  "new_base hq_airport a cyc country_code =
     \<lparr>base_airport = hq_airport, base_airline = a, base_scale = 1, base_founded_cycle = cyc,
      base_headquarter = True, base_country = country_code\<rparr>"

text \<open>What one teardown and rebuild counts.\<close>

record summary =
  routes_deleted :: nat
  aircraft_deleted :: nat
  bases_deleted :: nat
  hq_inserted :: bool
  aircraft_added :: nat

text \<open>
  Lines 1166-1235 of \<^verbatim>\<open>reset_single_bot\<close>; the body of the loop of \<^verbatim>\<open>reset_bots\<close>
  (lines 1028-1097) is the same text, with the counts added to running totals. The text
  is cut here at its comments into five blocks.
\<close>

text \<open>Lines 1166-1188: the seven DELETEs; the value holds the three row counts read.\<close>

definition delete_dependents :: "int \<Rightarrow> (nat \<times> nat \<times> nat) io" where
  "delete_dependents a =
     and_then (execute (DeleteLinkAssignments a)) (\<lambda>n1.
     and_then (execute (DeleteLinkConsumptions a)) (\<lambda>n2.
     and_then (execute (DeleteLinks a)) (\<lambda>routes.
     and_then (execute (DeleteAirplaneConfigurations a)) (\<lambda>n3.
     and_then (execute (DeleteAirplanes a)) (\<lambda>aircraft.
     and_then (execute (DeleteBases a)) (\<lambda>bases.
     and_then (execute (DeleteAppeal a)) (\<lambda>n4.
     return_io (routes, aircraft, bases))))))))"

text \<open>Lines 1190-1202: \<^verbatim>\<open>if country_code: UPDATE ... country_code = %s ... else: UPDATE ...\<close>.\<close>

definition reset_profile :: "int \<Rightarrow> string option \<Rightarrow> nat io" where
  "reset_profile a country_code =
     (if truthy_str country_code then execute (UpdateInfoCountry (str_of country_code) a)
      else execute (UpdateInfo a))"

text \<open>Lines 1204-1215: the largest airport of the country, when there is a country code.\<close>

definition find_hq_airport :: "string option \<Rightarrow> int option io" where
  "find_hq_airport country_code =
     (if truthy_str country_code then
        query (SelectLargestAirport (str_of country_code))
          (\<lambda>d. map_option airport_id (largest_airport (str_of country_code) d))
      else return_io None)"

text \<open>Lines 1217-1222: \<^verbatim>\<open>if hq_airport and country_code: INSERT INTO airline_base ...\<close>.\<close>

definition create_hq_base :: "int option \<Rightarrow> int \<Rightarrow> int \<Rightarrow> string option \<Rightarrow> bool io" where
  "create_hq_base hq_airport a cyc country_code =
     (if truthy_id hq_airport \<and> truthy_str country_code then
        and_then
          (execute (InsertBase (new_base (case hq_airport of None \<Rightarrow> 0 | Some h \<Rightarrow> h) a cyc
                                  (str_of country_code))))
          (\<lambda>n. return_io True)
      else return_io False)"

definition teardown_and_rebuild ::
  "int \<Rightarrow> string option \<Rightarrow> int \<Rightarrow> model_row list \<Rightarrow> summary io" where
  "teardown_and_rebuild a country_code cyc models =
     and_then (delete_dependents a) (\<lambda>deleted.
     and_then (reset_profile a country_code) (\<lambda>n.
     and_then (find_hq_airport country_code) (\<lambda>hq_airport.
     and_then (create_hq_base hq_airport a cyc country_code) (\<lambda>hq.
     and_then (add_random_airplanes models a cyc hq_airport) (\<lambda>added.
     return_io
       (case deleted of (routes, aircraft, bases) \<Rightarrow>
          \<lparr>routes_deleted = routes, aircraft_deleted = aircraft, bases_deleted = bases,
           hq_inserted = hq, aircraft_added = added\<rparr>))))))"

text \<open>Lines 1150-1155 and 1022-1026: \<^verbatim>\<open>if not country_code: country_code = get_country_for_airline(bot_name)\<close>.\<close>

definition infer_country :: "bot_row \<Rightarrow> string option" where
  "infer_country abot =
     (if \<not> truthy_str (bot_country_code abot) then get_country_for_airline (bot_name abot)
      else bot_country_code abot)"

subsection \<open>\<^verbatim>\<open>reset_single_bot\<close> (lines 1120-1255)\<close>

definition reset_single_message :: "string \<Rightarrow> summary \<Rightarrow> frag list" where
  "reset_single_message name r =
     [Lit ''Reset bot airline '', Lit name, Lit ''. Deleted '', Num (int (routes_deleted r)),
      Lit '' routes, '', Num (int (aircraft_deleted r)), Lit '' aircraft, '',
      Num (int (bases_deleted r)), Lit '' bases. Created new HQ. Added '',
      Num (int (aircraft_added r)),
      Lit '' new aircraft. Balance reset to $200,000, reputation to 0.'']"

definition reset_single_bot_body :: "int \<Rightarrow> response io" where
  "reset_single_bot_body b =
     and_then (query (SelectAirline b) (\<lambda>d. fetchone (select_airline b d))) (\<lambda>found.
     case found of
       None \<Rightarrow>
         return_io \<lparr>success = False, http_status = 404,
                    message = [Lit ''Airline with ID '', Num b, Lit '' not found''],
                    bots_reset = None, created_airline_id = None\<rparr>
     | Some abot \<Rightarrow>
         if bot_airline_type abot \<noteq> 2 then
           return_io \<lparr>success = False, http_status = 400,
                      message = [Lit ''Airline '', Lit (bot_name abot), Lit '' is not a bot airline''],
                      bots_reset = None, created_airline_id = None\<rparr>
         else
           and_then (query SelectMaxCycle current_cycle) (\<lambda>cyc.
           and_then (query SelectCheapModels cheap_models) (\<lambda>models.
           and_then (teardown_and_rebuild b (infer_country abot) cyc models) (\<lambda>r.
           and_then commit (\<lambda>u.
           return_io \<lparr>success = True, http_status = 200,
                      message = reset_single_message (bot_name abot) r,
                      bots_reset = None, created_airline_id = None\<rparr>)))))"

definition reset_single_bot :: "env \<Rightarrow> db \<Rightarrow> int \<Rightarrow> response \<times> session" where
  "reset_single_bot e d b = run_handler (reset_single_bot_body b) (connect e d)"

subsection \<open>\<^verbatim>\<open>reset_bots\<close> (lines 977-1118)\<close>

definition add_summary :: "summary \<Rightarrow> nat \<times> summary \<Rightarrow> nat \<times> summary" where
  "add_summary r acc =
     (case acc of (hqs, t) \<Rightarrow>
        (if hq_inserted r then hqs + 1 else hqs,
         \<lparr>routes_deleted = routes_deleted t + routes_deleted r,
          aircraft_deleted = aircraft_deleted t + aircraft_deleted r,
          bases_deleted = bases_deleted t + bases_deleted r,
          hq_inserted = hq_inserted t \<or> hq_inserted r,
          aircraft_added = aircraft_added t + aircraft_added r\<rparr>))"

text \<open>\<^verbatim>\<open>for bot in bots: ...\<close>, with the number of HQs created and the running totals.\<close>

fun reset_bots_loop ::
  "bot_row list \<Rightarrow> int \<Rightarrow> model_row list \<Rightarrow> nat \<times> summary \<Rightarrow> (nat \<times> summary) io" where
  "reset_bots_loop [] cyc models acc = return_io acc"
| "reset_bots_loop (abot # bots) cyc models acc =
     and_then (teardown_and_rebuild (bot_id abot) (infer_country abot) cyc models)
       (\<lambda>r. reset_bots_loop bots cyc models (add_summary r acc))"

definition reset_bots_message :: "nat \<Rightarrow> nat \<times> summary \<Rightarrow> frag list" where
  "reset_bots_message n acc =
     (case acc of (hqs, t) \<Rightarrow>
       [Lit ''Reset '', Num (int n), Lit '' bot airlines. Deleted '',
        Num (int (routes_deleted t)), Lit '' routes, '', Num (int (aircraft_deleted t)),
        Lit '' aircraft, '', Num (int (bases_deleted t)), Lit '' bases. Created '',
        Num (int hqs), Lit '' HQs. Added '', Num (int (aircraft_added t)),
        Lit '' new aircraft. Balance reset to $200,000, reputation to 0.''])"

definition no_totals :: "nat \<times> summary" where
  "no_totals =
     (0, \<lparr>routes_deleted = 0, aircraft_deleted = 0, bases_deleted = 0, hq_inserted = False,
          aircraft_added = 0\<rparr>)"

definition reset_bots_body :: "response io" where
  "reset_bots_body =
     and_then (query SelectBots select_bots) (\<lambda>bots.
     if bots = [] then
       return_io \<lparr>success = True, http_status = 200,
                  message = [Lit ''No bot airlines found to reset''],
                  bots_reset = None, created_airline_id = None\<rparr>
     else
       and_then (query SelectMaxCycle current_cycle) (\<lambda>cyc.
       and_then (query SelectCheapModels cheap_models) (\<lambda>models.
       and_then (reset_bots_loop bots cyc models no_totals) (\<lambda>totals.
       and_then commit (\<lambda>u.
       return_io \<lparr>success = True, http_status = 200,
                  message = reset_bots_message (length bots) totals,
                  bots_reset = Some (map bot_name bots), created_airline_id = None\<rparr>)))))"

definition reset_bots :: "env \<Rightarrow> db \<Rightarrow> response \<times> session" where
  "reset_bots e d = run_handler reset_bots_body (connect e d)"

subsection \<open>\<^verbatim>\<open>create_bot\<close> (lines 1257-1351)\<close>

text \<open>
  The JSON body of the request: a field is \<open>None\<close> when the key is absent (and the whole
  record is empty when there is no body); a field that is present holds a string.
\<close>

record create_request =
  req_name :: "string option"
  req_country_code :: "string option"
  req_airport_iata :: "string option"

definition insert_airline :: "string \<Rightarrow> int io" where
  "insert_airline name s =
     and_then (execute (InsertAirline \<lparr>airline_id = airline_auto_increment s, airline_name = name,
                                        airline_type = 2\<rparr>))
       (\<lambda>n s'. Inr (airline_auto_increment s',
                     s'\<lparr>airline_auto_increment := airline_auto_increment s' + 1\<rparr>)) s"

definition new_info :: "int \<Rightarrow> string \<Rightarrow> info_row" where
  "new_info a country_code =
     \<lparr>info_airline = a, info_balance = 200000, info_reputation = 0, info_service_quality = 50,
      info_target_service_quality = 50, info_country_code = Some country_code,
      info_initialized = True\<rparr>"

definition created_message :: "string \<Rightarrow> int \<Rightarrow> string \<Rightarrow> nat \<Rightarrow> frag list" where
  "created_message name a country_code added =
     [Lit (''Created bot airline '' @ [CHR 0x22]), Lit name, Lit ([CHR 0x22] @ '' (ID: ''), Num a,
      Lit '') with HQ in '', Lit country_code, Lit ''. Added '', Num (int added),
      Lit '' aircraft.'']"

text \<open>Lines 1298-1338, once the HQ airport is known.\<close>

definition create_rest :: "string \<Rightarrow> int \<Rightarrow> string \<Rightarrow> int \<Rightarrow> response io" where
  "create_rest name hq_airport country_code cyc =
     and_then (insert_airline name) (\<lambda>a.
     and_then (execute (InsertInfo (new_info a country_code))) (\<lambda>n1.
     and_then (execute (InsertBase (new_base hq_airport a cyc country_code))) (\<lambda>n2.
     and_then (query SelectCheapModels cheap_models) (\<lambda>models.
     and_then (add_random_airplanes models a cyc (Some hq_airport)) (\<lambda>added.
     and_then commit (\<lambda>u.
     return_io \<lparr>success = True, http_status = 200,
                message = created_message name a country_code added,
                bots_reset = None, created_airline_id = Some a\<rparr>))))))"

definition not_found :: "frag list \<Rightarrow> response" where
  "not_found msg =
     \<lparr>success = False, http_status = 404, message = msg, bots_reset = None,
      created_airline_id = None\<rparr>"

definition create_bot_body :: "create_request \<Rightarrow> response io" where
  "create_bot_body req =
     (let name = (case req_name req of None \<Rightarrow> ''New Bot Airline'' | Some n \<Rightarrow> n);
          country_code = (case req_country_code req of None \<Rightarrow> ''US'' | Some c \<Rightarrow> c);
          iata = req_airport_iata req
      in
        and_then (query SelectMaxCycle current_cycle) (\<lambda>cyc.
        if truthy_str iata then
          and_then (query (SelectAirportByIata (str_of iata)) (airport_by_iata (str_of iata)))
            (\<lambda>airport_result.
               case airport_result of
                 Some ap \<Rightarrow> create_rest name (airport_id ap) (airport_country_code ap) cyc
               | None \<Rightarrow>
                   return_io (not_found [Lit ''Airport '', Lit (str_of iata), Lit '' not found'']))
        else
          and_then (query (SelectLargestAirport country_code) (largest_airport country_code))
            (\<lambda>airport_result.
               case airport_result of
                 Some ap \<Rightarrow> create_rest name (airport_id ap) country_code cyc
               | None \<Rightarrow>
                   return_io (not_found [Lit ''No airport found in country '', Lit country_code]))))"

definition create_bot :: "env \<Rightarrow> db \<Rightarrow> create_request \<Rightarrow> response \<times> session" where
  "create_bot e d req = run_handler (create_bot_body req) (connect e d)"

subsection \<open>The statements of a run that returns\<close>

text \<open>
  What follows is not taken from the source: these are the notions in which the theorems
  describe a run of the handlers. \<open>ran qs s\<close> is the session \<open>s\<close> after the
  statements \<open>qs\<close>; \<open>hq_airport_of\<close> is the value of the variable \<^verbatim>\<open>hq_airport\<close>;
  \<open>rebuild_stmts\<close> lists the statements of one teardown and rebuild.
\<close>

fun numbered_airplanes :: "int \<Rightarrow> model_row list \<Rightarrow> int \<Rightarrow> int \<Rightarrow> int option \<Rightarrow> airplane_row list" where
  "numbered_airplanes i [] owner cyc home = []"
| "numbered_airplanes i (m # ms) owner cyc home =
     new_airplane i m owner cyc home # numbered_airplanes (i + 1) ms owner cyc home"

definition ran :: "stmt list \<Rightarrow> session \<Rightarrow> session" where
  "ran qs s = s\<lparr>working := fold apply_stmt qs (working s), executed := executed s @ qs\<rparr>"

definition hq_airport_of :: "string option \<Rightarrow> db \<Rightarrow> int option" where
  "hq_airport_of cc d =
     (if truthy_str cc then map_option airport_id (largest_airport (str_of cc) d) else None)"

definition delete_stmts :: "int \<Rightarrow> stmt list" where
  "delete_stmts a =
     [DeleteLinkAssignments a, DeleteLinkConsumptions a, DeleteLinks a,
      DeleteAirplaneConfigurations a, DeleteAirplanes a, DeleteBases a, DeleteAppeal a]"

definition profile_stmt :: "int \<Rightarrow> string option \<Rightarrow> stmt" where
  "profile_stmt a cc = (if truthy_str cc then UpdateInfoCountry (str_of cc) a else UpdateInfo a)"

definition hq_stmts :: "int \<Rightarrow> string option \<Rightarrow> int \<Rightarrow> db \<Rightarrow> stmt list" where
  "hq_stmts a cc cyc d =
     (if truthy_str cc then [SelectLargestAirport (str_of cc)] else [])
     @ (case hq_airport_of cc d of
          None \<Rightarrow> []
        | Some h \<Rightarrow> if h \<noteq> 0 then [InsertBase (new_base h a cyc (str_of cc))] else [])"

definition fleet ::
  "nat list \<Rightarrow> int \<Rightarrow> model_row list \<Rightarrow> int \<Rightarrow> int \<Rightarrow> int option \<Rightarrow> airplane_row list" where
  "fleet rs i models a cyc home =
     numbered_airplanes i (random_sample rs models (min 5 (length models))) a cyc home"

definition rebuild_stmts ::
  "nat list \<Rightarrow> int \<Rightarrow> db \<Rightarrow> int \<Rightarrow> string option \<Rightarrow> int \<Rightarrow> model_row list \<Rightarrow> stmt list" where
  "rebuild_stmts rs i d a cc cyc models =
     delete_stmts a @ [profile_stmt a cc] @ hq_stmts a cc cyc d
     @ map InsertAirplane (fleet rs i models a cyc (hq_airport_of cc d))"

text \<open>
  \<open>keeps_committed m\<close>: whether \<open>m\<close> returns or raises, the committed state is the one it
  started from. \<open>transactional m\<close>: the committed state may differ from the one \<open>m\<close>
  started from only when \<open>m\<close> returns a response that reports success.
\<close>

definition keeps_committed :: "'a io \<Rightarrow> bool" where
  "keeps_committed m =
     (\<forall>s. case m s of Inl (e, s1) \<Rightarrow> committed s1 = committed s
                     | Inr (a, s1) \<Rightarrow> committed s1 = committed s)"

definition transactional :: "response io \<Rightarrow> bool" where
  "transactional m =
     (\<forall>s. case m s of Inl (e, s1) \<Rightarrow> committed s1 = committed s
                     | Inr (resp, s1) \<Rightarrow> success resp \<or> committed s1 = committed s)"

subsection \<open>An example database\<close>

text \<open>
  Three bot airlines and a player airline (airline 4), which owns a route and an airplane
  of its own. Airline 1 has no stored country code and a name
  that contains a key of the country table; airline 2 has a name that contains none;
  airline 3 has no profile row. \<open>example_env k\<close> lets the storage fail at operation \<open>k\<close>.
\<close>

definition example_db :: db where
  "example_db =
     \<lparr>airline = [\<lparr>airline_id = 1, airline_name = ''Air France Express'', airline_type = 2\<rparr>,
                 \<lparr>airline_id = 2, airline_name = ''Zed Air'', airline_type = 2\<rparr>,
                 \<lparr>airline_id = 3, airline_name = ''Qantas Link'', airline_type = 2\<rparr>,
                 \<lparr>airline_id = 4, airline_name = ''Player One'', airline_type = 0\<rparr>],
      airline_info = [\<lparr>info_airline = 1, info_balance = 5, info_reputation = 7,
                        info_service_quality = 9, info_target_service_quality = 40,
                        info_country_code = None, info_initialized = True\<rparr>,
                      \<lparr>info_airline = 2, info_balance = -300, info_reputation = 12,
                        info_service_quality = 35, info_target_service_quality = 40,
                        info_country_code = None, info_initialized = True\<rparr>],
      airline_base = [\<lparr>base_airport = 8, base_airline = 1, base_scale = 3, base_founded_cycle = 1,
                        base_headquarter = True, base_country = ''FR''\<rparr>],
      airplane = [\<lparr>plane_id = 50, plane_model = 2, plane_owner = 1, plane_constructed_cycle = 1,
                    plane_purchased_cycle = 2, plane_condition = 40, plane_depreciation_rate = 3,
                    plane_value = 900, plane_is_sold = True, plane_dealer_ratio = 1,
                    plane_home = Some 8, plane_purchase_rate = 1, plane_version = 0\<rparr>,
                  \<lparr>plane_id = 51, plane_model = 1, plane_owner = 4, plane_constructed_cycle = 1,
                    plane_purchased_cycle = 2, plane_condition = 80, plane_depreciation_rate = 3,
                    plane_value = 30000000, plane_is_sold = False, plane_dealer_ratio = 1,
                    plane_home = Some 7, plane_purchase_rate = 1, plane_version = 0\<rparr>],
      airplane_configuration = [\<lparr>configuration_airplane = 50\<rparr>, \<lparr>configuration_airplane = 51\<rparr>],
      link = [\<lparr>link_id = 10, link_airline = 1\<rparr>, \<lparr>link_id = 11, link_airline = 4\<rparr>],
      link_assignment = [\<lparr>assignment_link = 10\<rparr>, \<lparr>assignment_link = 11\<rparr>],
      link_consumption = [\<lparr>consumption_link = 10\<rparr>, \<lparr>consumption_link = 11\<rparr>],
      airline_appeal = [\<lparr>appeal_airline = 1\<rparr>, \<lparr>appeal_airline = 4\<rparr>],
      airport = [\<lparr>airport_id = 7, airport_iata = ''CDG'', airport_country_code = ''FR'',
                   airport_size = 8, airport_population = 100\<rparr>,
                 \<lparr>airport_id = 8, airport_iata = ''ORY'', airport_country_code = ''FR'',
                   airport_size = 8, airport_population = 90\<rparr>,
                 \<lparr>airport_id = 9, airport_iata = ''NCE'', airport_country_code = ''FR'',
                   airport_size = 5, airport_population = 500\<rparr>,
                 \<lparr>airport_id = 20, airport_iata = ''JFK'', airport_country_code = ''US'',
                   airport_size = 9, airport_population = 800\<rparr>],
      airplane_model = [\<lparr>model_id = 1, model_name = ''Jumbo'', model_price = 40000000\<rparr>,
                        \<lparr>model_id = 2, model_name = ''Turboprop'', model_price = 9000\<rparr>,
                        \<lparr>model_id = 3, model_name = ''Cessna'', model_price = 1000\<rparr>],
      cycle = [4]\<rparr>"

definition example_env :: "nat option \<Rightarrow> env" where
  "example_env k = \<lparr>fault = k, random_numbers = [1, 0], next_airline_id = 5, next_airplane_id = 100\<rparr>"

definition reset_stmts :: "env \<Rightarrow> db \<Rightarrow> int \<Rightarrow> string option \<Rightarrow> stmt list" where
  "reset_stmts e d b cc =
     rebuild_stmts (random_numbers e) (next_airplane_id e) d b cc (current_cycle d) (cheap_models d)"

text \<open>
  \<open>reset_row\<close> is what the UPDATE of lines 1190-1202 makes of a profile row; \<open>hq_rows\<close>
  are the base rows that lines 1217-1222 insert.
\<close>

definition reset_row :: "int \<Rightarrow> string option \<Rightarrow> info_row \<Rightarrow> info_row" where
  "reset_row a cc i =
     (if info_airline i = a then
        (if truthy_str cc
         then i\<lparr>info_balance := 200000, info_reputation := 0, info_service_quality := 50,
                info_country_code := Some (str_of cc)\<rparr>
         else i\<lparr>info_balance := 200000, info_reputation := 0, info_service_quality := 50\<rparr>)
      else i)"

definition hq_rows :: "int \<Rightarrow> string option \<Rightarrow> int \<Rightarrow> db \<Rightarrow> base_row list" where
  "hq_rows a cc cyc d =
     (case hq_airport_of cc d of
        None \<Rightarrow> []
      | Some h \<Rightarrow> if h \<noteq> 0 then [new_base h a cyc (str_of cc)] else [])"

text \<open>
  For \<^verbatim>\<open>create_bot\<close>: the name and country code after the defaults of lines 1265-1266,
  the HQ airport and country code that lines 1276-1296 settle on (\<open>create_target\<close>,
  \<open>None\<close> when no airport is found), the SELECT that looks the airport up, the message of
  the 404 response, and the statements of lines 1298-1330.
\<close>

definition requested_name :: "create_request \<Rightarrow> string" where
  "requested_name req = (case req_name req of None \<Rightarrow> ''New Bot Airline'' | Some n \<Rightarrow> n)"

definition requested_country :: "create_request \<Rightarrow> string" where
  "requested_country req = (case req_country_code req of None \<Rightarrow> ''US'' | Some c \<Rightarrow> c)"

definition create_target :: "create_request \<Rightarrow> db \<Rightarrow> (int \<times> string) option" where
  "create_target req d =
     (if truthy_str (req_airport_iata req) then
        map_option (\<lambda>ap. (airport_id ap, airport_country_code ap))
          (airport_by_iata (str_of (req_airport_iata req)) d)
      else
        map_option (\<lambda>ap. (airport_id ap, requested_country req))
          (largest_airport (requested_country req) d))"

definition create_stmts :: "env \<Rightarrow> db \<Rightarrow> string \<Rightarrow> int \<Rightarrow> string \<Rightarrow> stmt list" where
  "create_stmts e d name hq cc =
     [InsertAirline \<lparr>airline_id = next_airline_id e, airline_name = name, airline_type = 2\<rparr>,
      InsertInfo (new_info (next_airline_id e) cc),
      InsertBase (new_base hq (next_airline_id e) (current_cycle d) cc),
      SelectCheapModels]
     @ map InsertAirplane
         (fleet (random_numbers e) (next_airplane_id e) (cheap_models d) (next_airline_id e)
            (current_cycle d) (Some hq))"

definition lookup_stmt :: "create_request \<Rightarrow> stmt" where
  "lookup_stmt req =
     (if truthy_str (req_airport_iata req) then SelectAirportByIata (str_of (req_airport_iata req))
      else SelectLargestAirport (requested_country req))"

definition unresolved_message :: "create_request \<Rightarrow> frag list" where
  "unresolved_message req =
     (if truthy_str (req_airport_iata req)
      then [Lit ''Airport '', Lit (str_of (req_airport_iata req)), Lit '' not found'']
      else [Lit ''No airport found in country '', Lit (requested_country req)])"

text \<open>
  The rows of one airline, and two notions for runs on a storage that does not fail:
  \<open>unfailing m\<close> says that \<open>m\<close> returns then, \<open>completes m\<close> that it returns a response
  that reports success.
\<close>

definition profiles_of :: "int \<Rightarrow> db \<Rightarrow> info_row list" where
  "profiles_of a d = filter (\<lambda>i. info_airline i = a) (airline_info d)"

definition bases_of :: "int \<Rightarrow> db \<Rightarrow> base_row list" where
  "bases_of a d = filter (\<lambda>r. base_airline r = a) (airline_base d)"

definition planes_of :: "int \<Rightarrow> db \<Rightarrow> airplane_row list" where
  "planes_of a d = filter (\<lambda>p. plane_owner p = a) (airplane d)"

definition unfailing :: "'a io \<Rightarrow> bool" where
  "unfailing m = (\<forall>s. fail_at s = None \<longrightarrow> (\<exists>a s1. m s = Inr (a, s1) \<and> fail_at s1 = None))"

definition completes :: "response io \<Rightarrow> bool" where
  "completes m = (\<forall>s. fail_at s = None \<longrightarrow> (\<exists>resp s1. m s = Inr (resp, s1) \<and> success resp))"

section \<open>Theorems\<close>

subsection \<open>The classifier\<close>

lemma float_or_zero_num: "float_or_zero (PyNum x) = Inr x"
  by (simp add: float_or_zero_def)

lemma convert_inputs_num:
  "convert_inputs (PyNum b) (PyNum r) (PyNum q) = (b, r, q)"
  by (simp add: convert_inputs_def float_or_zero_num)

text \<open>
  C4. On numbers the classifier is the first-match reading of the six rules of the
  specification, in their order and with their thresholds, and the six test vectors of the
  specification get PREMIUM, BUDGET, CONSERVATIVE, AGGRESSIVE, REGIONAL and BALANCED.
\<close>

theorem determine_personality_first_match:
  "first_match spec_rules b r q = Some (determine_personality (PyNum b) (PyNum r) (PyNum q))
   \<and> determine_personality (PyNum 0) (PyNum 0) (PyNum 80) = PREMIUM
   \<and> determine_personality (PyNum 5000000) (PyNum 10) (PyNum 50) = BUDGET
   \<and> determine_personality (PyNum 0) (PyNum 80) (PyNum 50) = CONSERVATIVE
   \<and> determine_personality (PyNum 150000000) (PyNum 50) (PyNum 50) = AGGRESSIVE
   \<and> determine_personality (PyNum 0) (PyNum 50) (PyNum 30) = REGIONAL
   \<and> determine_personality (PyNum 0) (PyNum 50) (PyNum 50) = BALANCED"
  by (simp add: determine_personality_def convert_inputs_num decide_def spec_rules_def)

lemma float_or_zero_falsy: "\<not> truthy x \<Longrightarrow> float_or_zero x = Inr 0"
  by (simp add: float_or_zero_def)

lemma convert_inputs_raises:
  "raises b \<or> raises r \<or> raises q \<Longrightarrow> convert_inputs b r q = (0, 0, 0)"
  by (auto simp: convert_inputs_def raises_def split: sum.splits)

text \<open>
  C5, as the claim states it, fails: with a balance of 150,000,000, a reputation that is
  a non-numeric string and a service quality of 50 the handler zeroes all three numbers,
  and the category is BUDGET; replacing only the reputation by zero gives AGGRESSIVE.
\<close>

theorem determine_personality_bad_input_counterexample:
  "raises PyBadStr
   \<and> determine_personality (PyNum 150000000) PyBadStr (PyNum 50) = BUDGET
   \<and> determine_personality (PyNum 150000000) (PyNum 0) (PyNum 50) = AGGRESSIVE"
  by (simp add: determine_personality_def convert_inputs_def float_or_zero_def raises_def
      decide_def)

text \<open>
  C5, amended. The classifier returns a category for every triple of arguments. A missing
  (falsy) argument is replaced by zero on its own, in each of the three positions, the
  other two arguments unchanged. When the conversion of any argument raises, all three
  numbers are zero and the category is BUDGET.
\<close>

theorem determine_personality_coercion:
  "(\<not> truthy x \<longrightarrow>
      determine_personality x r q = determine_personality (PyNum 0) r q
    \<and> determine_personality b x q = determine_personality b (PyNum 0) q
    \<and> determine_personality b r x = determine_personality b r (PyNum 0))
   \<and> (raises b \<or> raises r \<or> raises q \<longrightarrow>
      determine_personality b r q = determine_personality (PyNum 0) (PyNum 0) (PyNum 0)
    \<and> determine_personality b r q = BUDGET)"
proof -
  have zeros: "determine_personality (PyNum 0) (PyNum 0) (PyNum 0) = BUDGET"
    by (simp add: determine_personality_def convert_inputs_num decide_def)
  have bad: "determine_personality b r q = BUDGET" if "raises b \<or> raises r \<or> raises q"
    using that by (simp add: determine_personality_def convert_inputs_raises decide_def)
  have missing: "determine_personality x r q = determine_personality (PyNum 0) r q
      \<and> determine_personality b x q = determine_personality b (PyNum 0) q
      \<and> determine_personality b r x = determine_personality b r (PyNum 0)"
    if "\<not> truthy x"
  proof -
    have "float_or_zero x = float_or_zero (PyNum 0)"
      using that by (simp add: float_or_zero_falsy float_or_zero_num)
    then show ?thesis
      by (simp add: determine_personality_def convert_inputs_def cong: sum.case_cong)
  qed
  show ?thesis
    using zeros bad missing by simp
qed

theorem determine_personality_coercion_witness:
  "\<not> truthy PyNone
   \<and> determine_personality PyNone (PyNum 80) (PyNum 50)
       = determine_personality (PyNum 0) (PyNum 80) (PyNum 50)
   \<and> determine_personality (PyNum 150000000) PyNone (PyNum 50)
       = determine_personality (PyNum 150000000) (PyNum 0) (PyNum 50)
   \<and> determine_personality (PyNum 150000000) (PyNum 80) PyNone
       = determine_personality (PyNum 150000000) (PyNum 80) (PyNum 0)
   \<and> raises PyBadStr
   \<and> determine_personality (PyNum 150000000) PyBadStr (PyNum 50) = BUDGET"
  using determine_personality_coercion
    [of PyNone "PyNum 80" "PyNum 50" "PyNum 150000000"]
    determine_personality_coercion
    [of PyNone PyBadStr "PyNum 50" "PyNum 150000000"]
  by (simp add: raises_def float_or_zero_def determine_personality_def convert_inputs_def
      decide_def)

subsection \<open>Runs that return\<close>

lemma and_then_Inr:
  "and_then m f s = Inr x \<longleftrightarrow> (\<exists>a s1. m s = Inr (a, s1) \<and> f a s1 = Inr x)"
  by (auto simp: and_then_def split: sum.splits)

lemma return_io_Inr: "return_io a s = Inr (b, s1) \<longleftrightarrow> b = a \<and> s1 = s"
  by (auto simp: return_io_def)

lemma ran_Nil: "ran [] s = s"
  by (simp add: ran_def)

lemma ran_ran: "ran qs2 (ran qs1 s) = ran (qs1 @ qs2) s"
  by (simp add: ran_def)

lemma ran_fields:
  "committed (ran qs s) = committed s" "fail_at (ran qs s) = fail_at s"
  "rng (ran qs s) = rng s" "airplane_auto_increment (ran qs s) = airplane_auto_increment s"
  "airline_auto_increment (ran qs s) = airline_auto_increment s"
  "working (ran qs s) = fold apply_stmt qs (working s)"
  "executed (ran qs s) = executed s @ qs"
  by (simp_all add: ran_def)

lemma execute_Inr:
  "execute q s = Inr (n, s1) \<longleftrightarrow>
     \<not> storage_fails s \<and> n = rowcount q (working s) \<and> s1 = ran [q] s"
  by (auto simp: execute_def ran_def)

lemma query_Inr:
  "query q f s = Inr (r, s1) \<longleftrightarrow>
     \<not> storage_fails s \<and> r = f (apply_stmt q (working s)) \<and> s1 = ran [q] s"
  by (auto simp: query_def and_then_Inr execute_Inr ran_def)

lemma commit_Inr:
  "commit s = Inr (u, s1) \<longleftrightarrow>
     \<not> storage_fails s \<and> s1 = (ran [Commit] s)\<lparr>committed := working s\<rparr>"
  by (auto simp: commit_def ran_def)

lemma sample_io_Inr:
  "sample_io pool k s = Inr (xs, s1) \<longleftrightarrow>
     xs = random_sample (rng s) pool k \<and> s1 = s\<lparr>rng := drop k (rng s)\<rparr>"
  by (auto simp: sample_io_def)

lemma insert_airplane_Inr:
  "insert_airplane m owner cyc home s = Inr (n, s1) \<Longrightarrow>
     s1 = (ran [InsertAirplane (new_airplane (airplane_auto_increment s) m owner cyc home)] s)
            \<lparr>airplane_auto_increment := airplane_auto_increment s + 1\<rparr>"
  by (auto simp: insert_airplane_def and_then_Inr execute_Inr ran_def)

lemma insert_airplanes_Inr:
  "insert_airplanes ms owner cyc home added s = Inr (n, s1) \<Longrightarrow>
     n = added + length ms
     \<and> s1 = (ran (map InsertAirplane (numbered_airplanes (airplane_auto_increment s) ms owner cyc home)) s)
              \<lparr>airplane_auto_increment := airplane_auto_increment s + int (length ms)\<rparr>"
proof (induction ms arbitrary: added s)
  case Nil
  then show ?case by (simp add: return_io_Inr ran_Nil)
next
  case (Cons m ms)
  from Cons.prems obtain n0 s0 where
    a: "insert_airplane m owner cyc home s = Inr (n0, s0)" and
    b: "insert_airplanes ms owner cyc home (added + 1) s0 = Inr (n, s1)"
    by (auto simp: and_then_Inr)
  from Cons.IH [OF b] insert_airplane_Inr [OF a] show ?case
    by (simp add: ran_def)
qed

lemma length_numbered_airplanes [simp]:
  "length (numbered_airplanes i ms owner cyc home) = length ms"
  by (induction ms arbitrary: i) auto

lemma add_random_airplanes_Inr:
  "add_random_airplanes models a cyc home s = Inr (n, s1) \<Longrightarrow>
     n = length (fleet (rng s) (airplane_auto_increment s) models a cyc home)
     \<and> s1 = (ran (map InsertAirplane (fleet (rng s) (airplane_auto_increment s) models a cyc home)) s)
              \<lparr>rng := drop (min 5 (length models)) (rng s),
               airplane_auto_increment := airplane_auto_increment s + int (length (fleet (rng s) (airplane_auto_increment s) models a cyc home))\<rparr>"
proof (cases "models = []")
  case True
  assume "add_random_airplanes models a cyc home s = Inr (n, s1)"
  with True show ?thesis
    by (simp add: add_random_airplanes_def return_io_Inr fleet_def ran_Nil)
next
  case False
  assume "add_random_airplanes models a cyc home s = Inr (n, s1)"
  with False obtain s0 where
    a: "s0 = s\<lparr>rng := drop (min 5 (length models)) (rng s)\<rparr>" and
    b: "insert_airplanes (random_sample (rng s) models (min 5 (length models))) a cyc home 0 s0 = Inr (n, s1)"
    by (auto simp: add_random_airplanes_def and_then_Inr sample_io_Inr)
  from insert_airplanes_Inr [OF b] a show ?thesis
    by (simp add: fleet_def ran_def)
qed

lemma delete_dependents_Inr:
  "delete_dependents a s = Inr (r, s1) \<Longrightarrow>
     s1 = ran (delete_stmts a) s
     \<and> r = (length (filter (\<lambda>l. link_airline l = a) (link (working s))),
            length (filter (\<lambda>p. plane_owner p = a) (airplane (working s))),
            length (filter (\<lambda>b. base_airline b = a) (airline_base (working s))))"
  by (simp add: delete_dependents_def and_then_Inr execute_Inr return_io_Inr ran_ran
      delete_stmts_def) (auto simp: ran_def)

lemma reset_profile_Inr:
  "reset_profile a cc s = Inr (n, s1) \<Longrightarrow> s1 = ran [profile_stmt a cc] s"
  by (simp add: reset_profile_def profile_stmt_def execute_Inr split: if_splits)

lemma find_hq_airport_Inr:
  "find_hq_airport cc s = Inr (h, s1) \<Longrightarrow>
     h = hq_airport_of cc (working s)
     \<and> s1 = ran (if truthy_str cc then [SelectLargestAirport (str_of cc)] else []) s"
  by (auto simp: find_hq_airport_def hq_airport_of_def query_Inr return_io_Inr ran_Nil
      split: if_splits)

lemma create_hq_base_Inr:
  "create_hq_base h a cyc cc s = Inr (hq, s1) \<Longrightarrow>
     hq = (truthy_id h \<and> truthy_str cc)
     \<and> s1 = ran (if truthy_id h \<and> truthy_str cc
                 then [InsertBase (new_base (case h of None \<Rightarrow> 0 | Some i \<Rightarrow> i) a cyc (str_of cc))]
                 else []) s"
  by (auto simp: create_hq_base_def and_then_Inr execute_Inr return_io_Inr ran_Nil
      split: if_splits)

lemma truthy_hq_airport_of:
  "truthy_id (hq_airport_of cc d) \<Longrightarrow> truthy_str cc"
  by (auto simp: hq_airport_of_def truthy_id_def split: if_splits)

lemma hq_stmts_eq:
  "(if truthy_str cc then [SelectLargestAirport (str_of cc)] else [])
   @ (if truthy_id (hq_airport_of cc d) \<and> truthy_str cc
      then [InsertBase (new_base (case hq_airport_of cc d of None \<Rightarrow> 0 | Some i \<Rightarrow> i) a cyc (str_of cc))]
      else []) = hq_stmts a cc cyc d"
  by (auto simp: hq_stmts_def truthy_id_def hq_airport_of_def split: option.splits)

lemma airport_fold_apply_stmt [simp]:
  "airport (apply_stmt q d) = airport d"
  by (cases q) simp_all

lemma airport_fold [simp]: "airport (fold apply_stmt qs d) = airport d"
  by (induction qs arbitrary: d) simp_all

lemma hq_airport_of_fold [simp]:
  "hq_airport_of cc (fold apply_stmt qs d) = hq_airport_of cc d"
  by (simp add: hq_airport_of_def largest_airport_def)

lemma hq_airport_of_apply [simp]:
  "hq_airport_of cc (apply_stmt q d) = hq_airport_of cc d"
  by (simp add: hq_airport_of_def largest_airport_def)

lemma length_random_sample:
  "length (random_sample rs pool k) = min k (length pool)"
proof (induction k arbitrary: rs pool)
  case 0
  then show ?case by simp
next
  case (Suc k)
  show ?case
  proof (cases "pool = []")
    case True
    then show ?thesis by simp
  next
    case False
    define j where "j = (case rs of [] \<Rightarrow> 0 | r # rest \<Rightarrow> r mod length pool)"
    have "j < length pool"
      using False by (auto simp: j_def split: list.splits)
    then have "length (take j pool @ drop (Suc j) pool) = length pool - 1"
      by auto
    with Suc.IH [of "tl rs" "take j pool @ drop (Suc j) pool"] False
    have "length (random_sample rs pool (Suc k)) = Suc (min k (length pool - 1))"
      by (simp add: j_def [symmetric] Let_def)
    also have "\<dots> = min (Suc k) (length pool)"
      using False by (cases pool) auto
    finally show ?thesis .
  qed
qed

lemma length_fleet: "length (fleet rs i models a cyc home) = min 5 (length models)"
  by (simp add: fleet_def length_random_sample)

lemma teardown_and_rebuild_Inr:
  assumes "teardown_and_rebuild a cc cyc models s = Inr (r, s1)"
  shows "s1 = (ran (rebuild_stmts (rng s) (airplane_auto_increment s) (working s) a cc cyc models) s)
           \<lparr>rng := drop (min 5 (length models)) (rng s),
            airplane_auto_increment := airplane_auto_increment s
               + int (min 5 (length models))\<rparr>"
    and "r = \<lparr>routes_deleted = length (filter (\<lambda>l. link_airline l = a) (link (working s))),
             aircraft_deleted = length (filter (\<lambda>p. plane_owner p = a) (airplane (working s))),
             bases_deleted = length (filter (\<lambda>b. base_airline b = a) (airline_base (working s))),
             hq_inserted = truthy_id (hq_airport_of cc (working s)),
             aircraft_added = min 5 (length models)\<rparr>"
proof -
  from assms obtain d s2 n s3 h s4 hq s5 added where
    1: "delete_dependents a s = Inr (d, s2)" and
    2: "reset_profile a cc s2 = Inr (n, s3)" and
    3: "find_hq_airport cc s3 = Inr (h, s4)" and
    4: "create_hq_base h a cyc cc s4 = Inr (hq, s5)" and
    5: "add_random_airplanes models a cyc h s5 = Inr (added, s1)" and
    6: "r = (case d of (routes, aircraft, bases) \<Rightarrow>
          \<lparr>routes_deleted = routes, aircraft_deleted = aircraft, bases_deleted = bases,
           hq_inserted = hq, aircraft_added = added\<rparr>)"
    unfolding teardown_and_rebuild_def and_then_Inr return_io_Inr by blast
  note a = delete_dependents_Inr [OF 1]
  note b = reset_profile_Inr [OF 2]
  note c = find_hq_airport_Inr [OF 3]
  note d = create_hq_base_Inr [OF 4]
  note e = add_random_airplanes_Inr [OF 5]
  have s3: "s3 = ran (delete_stmts a @ [profile_stmt a cc]) s"
    using a b by (simp add: ran_ran)
  have h: "h = hq_airport_of cc (working s)"
    using c s3 by (simp add: ran_fields)
  have s5: "s5 = ran (delete_stmts a @ [profile_stmt a cc] @ hq_stmts a cc cyc (working s)) s"
    using c d s3 h by (simp add: ran_ran hq_stmts_eq [symmetric])
  have f: "fleet (rng s5) (airplane_auto_increment s5) models a cyc h = fleet (rng s) (airplane_auto_increment s) models a cyc h"
    using s5 by (simp add: fleet_def ran_fields)
  have len: "length (fleet (rng s) (airplane_auto_increment s) models a cyc h) = min 5 (length models)"
    by (rule length_fleet)
  show "s1 = (ran (rebuild_stmts (rng s) (airplane_auto_increment s) (working s) a cc cyc models) s)
           \<lparr>rng := drop (min 5 (length models)) (rng s),
            airplane_auto_increment := airplane_auto_increment s
               + int (min 5 (length models))\<rparr>"
    using e s5 h f len by (simp add: ran_ran rebuild_stmts_def ran_fields)
  show "r = \<lparr>routes_deleted = length (filter (\<lambda>l. link_airline l = a) (link (working s))),
             aircraft_deleted = length (filter (\<lambda>p. plane_owner p = a) (airplane (working s))),
             bases_deleted = length (filter (\<lambda>b. base_airline b = a) (airline_base (working s))),
             hq_inserted = truthy_id (hq_airport_of cc (working s)),
             aircraft_added = min 5 (length models)\<rparr>"
    using 6 a d e h f len truthy_hq_airport_of [of cc "working s"] by auto
qed

subsection \<open>Runs that raise\<close>

lemma keeps_committed_return: "keeps_committed (return_io a)"
  by (simp add: keeps_committed_def return_io_def)

lemma keeps_committed_execute: "keeps_committed (execute q)"
  by (simp add: keeps_committed_def execute_def)

lemma keeps_committed_and_then:
  assumes "keeps_committed m" and "\<And>a. keeps_committed (f a)"
  shows "keeps_committed (and_then m f)"
  unfolding keeps_committed_def
proof
  fix s
  show "case and_then m f s of Inl (e, s1) \<Rightarrow> committed s1 = committed s
          | Inr (a, s1) \<Rightarrow> committed s1 = committed s"
  proof (cases "m s")
    case (Inl es)
    with assms(1) show ?thesis
      by (auto simp: keeps_committed_def and_then_def split: sum.splits prod.splits)
  next
    case (Inr as)
    obtain a s0 where as: "as = (a, s0)" by (cases as)
    from assms(1) Inr as have "committed s0 = committed s"
      by (auto simp: keeps_committed_def split: sum.splits prod.splits)
    moreover from assms(2) [of a] have
      "case f a s0 of Inl (e, s1) \<Rightarrow> committed s1 = committed s0
         | Inr (b, s1) \<Rightarrow> committed s1 = committed s0"
      by (simp add: keeps_committed_def)
    ultimately show ?thesis
      using Inr as by (auto simp: and_then_def split: sum.splits prod.splits)
  qed
qed

lemma keeps_committed_query: "keeps_committed (query q f)"
  unfolding query_def
  by (rule keeps_committed_and_then [OF keeps_committed_execute])
     (simp add: keeps_committed_def)

lemma keeps_committed_sample: "keeps_committed (sample_io pool k)"
  by (simp add: keeps_committed_def sample_io_def)

lemma keeps_committed_insert_airplane: "keeps_committed (insert_airplane m owner cyc home)"
  by (auto simp: keeps_committed_def insert_airplane_def and_then_def execute_def
      split: sum.splits)

lemma keeps_committed_insert_airplanes:
  "keeps_committed (insert_airplanes ms owner cyc home added)"
  by (induction ms arbitrary: added)
     (simp_all add: keeps_committed_return keeps_committed_and_then
        keeps_committed_insert_airplane)

lemma keeps_committed_add_random_airplanes:
  "keeps_committed (add_random_airplanes models a cyc home)"
  by (simp add: add_random_airplanes_def keeps_committed_return keeps_committed_and_then
      keeps_committed_sample keeps_committed_insert_airplanes)

lemma keeps_committed_delete_dependents: "keeps_committed (delete_dependents a)"
  unfolding delete_dependents_def
  by (intro keeps_committed_and_then keeps_committed_execute keeps_committed_return)

lemma keeps_committed_teardown_and_rebuild:
  "keeps_committed (teardown_and_rebuild a cc cyc models)"
  unfolding teardown_and_rebuild_def
  by (intro keeps_committed_and_then keeps_committed_delete_dependents
      keeps_committed_add_random_airplanes keeps_committed_return)
     (simp_all add: reset_profile_def find_hq_airport_def create_hq_base_def
        keeps_committed_execute keeps_committed_query keeps_committed_return
        keeps_committed_and_then)

lemma keeps_committed_reset_bots_loop:
  "keeps_committed (reset_bots_loop bots cyc models acc)"
  by (induction bots arbitrary: acc)
     (simp_all add: keeps_committed_return keeps_committed_and_then
        keeps_committed_teardown_and_rebuild)

lemma transactional_and_then:
  assumes "keeps_committed m" and "\<And>a. transactional (f a)"
  shows "transactional (and_then m f)"
  unfolding transactional_def
proof
  fix s
  show "case and_then m f s of Inl (e, s1) \<Rightarrow> committed s1 = committed s
          | Inr (resp, s1) \<Rightarrow> success resp \<or> committed s1 = committed s"
  proof (cases "m s")
    case (Inl es)
    with assms(1) show ?thesis
      by (auto simp: keeps_committed_def and_then_def split: sum.splits prod.splits)
  next
    case (Inr as)
    obtain a s0 where as: "as = (a, s0)" by (cases as)
    from assms(1) Inr as have "committed s0 = committed s"
      by (auto simp: keeps_committed_def split: sum.splits prod.splits)
    moreover from assms(2) [of a] have
      "case f a s0 of Inl (e, s1) \<Rightarrow> committed s1 = committed s0
         | Inr (resp, s1) \<Rightarrow> success resp \<or> committed s1 = committed s0"
      by (simp add: transactional_def)
    ultimately show ?thesis
      using Inr as by (auto simp: and_then_def split: sum.splits prod.splits)
  qed
qed

lemma transactional_return: "transactional (return_io r)"
  by (simp add: transactional_def return_io_def)

lemma transactional_commit:
  "success r \<Longrightarrow> transactional (and_then commit (\<lambda>u. return_io r))"
  by (simp add: transactional_def and_then_def commit_def return_io_def)

lemmas transactional_steps =
  transactional_and_then [OF keeps_committed_query]
  transactional_and_then [OF keeps_committed_teardown_and_rebuild]
  transactional_and_then [OF keeps_committed_reset_bots_loop]
  transactional_commit transactional_return

lemma transactional_reset_single_bot_body: "transactional (reset_single_bot_body b)"
  unfolding reset_single_bot_body_def
proof (rule transactional_and_then [OF keeps_committed_query])
  fix found :: "bot_row option"
  show "transactional
     (case found of
        None \<Rightarrow>
          return_io \<lparr>success = False, http_status = 404,
                     message = [Lit ''Airline with ID '', Num b, Lit '' not found''],
                     bots_reset = None, created_airline_id = None\<rparr>
      | Some abot \<Rightarrow>
          if bot_airline_type abot \<noteq> 2 then
            return_io \<lparr>success = False, http_status = 400,
                       message = [Lit ''Airline '', Lit (bot_name abot), Lit '' is not a bot airline''],
                       bots_reset = None, created_airline_id = None\<rparr>
          else
            and_then (query SelectMaxCycle current_cycle) (\<lambda>cyc.
            and_then (query SelectCheapModels cheap_models) (\<lambda>models.
            and_then (teardown_and_rebuild b (infer_country abot) cyc models) (\<lambda>r.
            and_then commit (\<lambda>u.
            return_io \<lparr>success = True, http_status = 200,
                       message = reset_single_message (bot_name abot) r,
                       bots_reset = None, created_airline_id = None\<rparr>)))))"
  proof (cases found)
    case None
    then show ?thesis by (simp add: transactional_return)
  next
    case (Some abot)
    show ?thesis
    proof (cases "bot_airline_type abot \<noteq> 2")
      case True
      with Some show ?thesis by (simp add: transactional_return)
    next
      case False
      with Some show ?thesis
        by simp (intro transactional_steps, simp)
    qed
  qed
qed

lemma transactional_reset_bots_body: "transactional reset_bots_body"
  unfolding reset_bots_body_def
proof (rule transactional_and_then [OF keeps_committed_query])
  fix bots :: "bot_row list"
  show "transactional
     (if bots = [] then
        return_io \<lparr>success = True, http_status = 200,
                   message = [Lit ''No bot airlines found to reset''],
                   bots_reset = None, created_airline_id = None\<rparr>
      else
        and_then (query SelectMaxCycle current_cycle) (\<lambda>cyc.
        and_then (query SelectCheapModels cheap_models) (\<lambda>models.
        and_then (reset_bots_loop bots cyc models no_totals) (\<lambda>totals.
        and_then commit (\<lambda>u.
        return_io \<lparr>success = True, http_status = 200,
                   message = reset_bots_message (length bots) totals,
                   bots_reset = Some (map bot_name bots), created_airline_id = None\<rparr>)))))"
  proof (cases "bots = []")
    case True
    then show ?thesis by (simp add: transactional_return)
  next
    case False
    then show ?thesis
      by simp (intro transactional_steps, simp)
  qed
qed

lemma run_handler_failure:
  assumes "transactional body"
  shows "\<not> success (fst (run_handler body (connect e d))) \<Longrightarrow>
           committed (snd (run_handler body (connect e d))) = d"
    and "body (connect e d) = Inl (x, s1) \<Longrightarrow>
           fst (run_handler body (connect e d)) = error_response x
           \<and> committed (snd (run_handler body (connect e d))) = d
           \<and> working (snd (run_handler body (connect e d))) = d"
  using assms [unfolded transactional_def, rule_format, of "connect e d"]
  by (auto simp: run_handler_def close_def rollback_def connect_def error_response_def
      split: sum.splits prod.splits)

subsection \<open>A reset that succeeds\<close>

lemma run_handler_success:
  assumes "success (fst (run_handler body s))"
  obtains resp s1 where "body s = Inr (resp, s1)" "success resp"
    "run_handler body s = (resp, close s1)"
  using assms
  by (auto simp: run_handler_def error_response_def split: sum.splits prod.splits)

lemma reset_single_bot_success:
  assumes "success (fst (reset_single_bot e d b))"
  obtains abot where
    "fetchone (select_airline b d) = Some abot" and "bot_airline_type abot = 2"
    and "executed (snd (reset_single_bot e d b)) =
           [SelectAirline b, SelectMaxCycle, SelectCheapModels]
           @ reset_stmts e d b (infer_country abot) @ [Commit]"
    and "committed (snd (reset_single_bot e d b)) =
           fold apply_stmt (reset_stmts e d b (infer_country abot)) d"
    and "message (fst (reset_single_bot e d b)) =
           reset_single_message (bot_name abot)
             \<lparr>routes_deleted = length (filter (\<lambda>l. link_airline l = b) (link d)),
              aircraft_deleted = length (filter (\<lambda>p. plane_owner p = b) (airplane d)),
              bases_deleted = length (filter (\<lambda>r. base_airline r = b) (airline_base d)),
              hq_inserted = truthy_id (hq_airport_of (infer_country abot) d),
              aircraft_added = min 5 (length (cheap_models d))\<rparr>"
proof -
  from assms obtain resp sf where
    body: "reset_single_bot_body b (connect e d) = Inr (resp, sf)" and ok: "success resp" and
    run: "reset_single_bot e d b = (resp, close sf)"
    unfolding reset_single_bot_def by (rule run_handler_success)
  define s1 where "s1 = ran [SelectAirline b] (connect e d)"
  from body ok obtain abot where
    found: "fetchone (select_airline b d) = Some abot" and type: "bot_airline_type abot = 2" and
    rest: "and_then (query SelectMaxCycle current_cycle) (\<lambda>cyc.
           and_then (query SelectCheapModels cheap_models) (\<lambda>models.
           and_then (teardown_and_rebuild b (infer_country abot) cyc models) (\<lambda>r.
           and_then commit (\<lambda>u.
           return_io \<lparr>success = True, http_status = 200,
                      message = reset_single_message (bot_name abot) r,
                      bots_reset = None, created_airline_id = None\<rparr>)))) s1 = Inr (resp, sf)"
    unfolding reset_single_bot_body_def and_then_Inr [of "query (SelectAirline b) _"] query_Inr
    by (auto simp: s1_def connect_def return_io_Inr split: option.splits if_splits)
  define s3 where "s3 = ran [SelectAirline b, SelectMaxCycle, SelectCheapModels] (connect e d)"
  from rest obtain r s4 where
    td: "teardown_and_rebuild b (infer_country abot) (current_cycle d) (cheap_models d) s3 = Inr (r, s4)" and
    fin: "and_then commit (\<lambda>u.
           return_io \<lparr>success = True, http_status = 200,
                      message = reset_single_message (bot_name abot) r,
                      bots_reset = None, created_airline_id = None\<rparr>) s4 = Inr (resp, sf)"
    unfolding and_then_Inr [of "query _ _"] query_Inr
    by (auto simp: s1_def s3_def ran_ran ran_fields connect_def and_then_Inr [of "teardown_and_rebuild _ _ _ _"])
  have w3: "working s3 = d" "rng s3 = random_numbers e"
    "airplane_auto_increment s3 = next_airplane_id e" "executed s3 = [SelectAirline b, SelectMaxCycle, SelectCheapModels]"
    by (simp_all add: s3_def ran_fields connect_def)
  note t = teardown_and_rebuild_Inr [OF td, unfolded w3]
  from fin have sf: "sf = (ran [Commit] s4)\<lparr>committed := working s4\<rparr>"
    and resp: "resp = \<lparr>success = True, http_status = 200,
                      message = reset_single_message (bot_name abot) r,
                      bots_reset = None, created_airline_id = None\<rparr>"
    by (auto simp: and_then_Inr commit_Inr return_io_Inr)
  show ?thesis
  proof (rule that [OF found type])
    show "executed (snd (reset_single_bot e d b)) =
           [SelectAirline b, SelectMaxCycle, SelectCheapModels]
           @ reset_stmts e d b (infer_country abot) @ [Commit]"
      using run sf t(1) w3 by (simp add: close_def ran_fields reset_stmts_def)
    show "committed (snd (reset_single_bot e d b)) =
           fold apply_stmt (reset_stmts e d b (infer_country abot)) d"
      using run sf t(1) w3 by (simp add: close_def ran_fields reset_stmts_def)
    show "message (fst (reset_single_bot e d b)) =
           reset_single_message (bot_name abot)
             \<lparr>routes_deleted = length (filter (\<lambda>l. link_airline l = b) (link d)),
              aircraft_deleted = length (filter (\<lambda>p. plane_owner p = b) (airplane d)),
              bases_deleted = length (filter (\<lambda>r. base_airline r = b) (airline_base d)),
              hq_inserted = truthy_id (hq_airport_of (infer_country abot) d),
              aircraft_added = min 5 (length (cheap_models d))\<rparr>"
      using run resp t(2) by simp
  qed
qed

lemma fold_insert_airplanes:
  "fold apply_stmt (map InsertAirplane ps) d = d\<lparr>airplane := airplane d @ ps\<rparr>"
  by (induction ps arbitrary: d) simp_all


lemma rebuilt_tables:
  fixes rs i d a cc cyc models
  defines "D \<equiv> fold apply_stmt (rebuild_stmts rs i d a cc cyc models) d"
  shows "link_assignment D =
           filter (\<lambda>r. assignment_link r \<notin> set (link_ids a d)) (link_assignment d)"
    and "link_consumption D =
           filter (\<lambda>r. consumption_link r \<notin> set (link_ids a d)) (link_consumption d)"
    and "link D = filter (\<lambda>l. link_airline l \<noteq> a) (link d)"
    and "airplane_configuration D =
           filter (\<lambda>r. configuration_airplane r \<notin> set (airplane_ids a d)) (airplane_configuration d)"
    and "airplane D = filter (\<lambda>p. plane_owner p \<noteq> a) (airplane d)
           @ fleet rs i models a cyc (hq_airport_of cc d)"
    and "airline_base D = filter (\<lambda>r. base_airline r \<noteq> a) (airline_base d) @ hq_rows a cc cyc d"
    and "airline_appeal D = filter (\<lambda>r. appeal_airline r \<noteq> a) (airline_appeal d)"
    and "airline_info D = map (reset_row a cc) (airline_info d)"
    and "airline D = airline d" and "airport D = airport d"
    and "airplane_model D = airplane_model d" and "cycle D = cycle d"
  unfolding D_def rebuild_stmts_def delete_stmts_def profile_stmt_def hq_stmts_def hq_rows_def
  by (simp_all add: fold_insert_airplanes link_ids_def airplane_ids_def reset_row_def
      split: option.splits cong: map_cong)

lemma mset_remove_nth:
  "j < length pool \<Longrightarrow> mset pool = add_mset (pool ! j) (mset (take j pool @ drop (Suc j) pool))"
proof -
  assume "j < length pool"
  then have "pool = take j pool @ pool ! j # drop (Suc j) pool"
    by (rule id_take_nth_drop)
  then have "mset pool = mset (take j pool @ pool ! j # drop (Suc j) pool)"
    by simp
  then show ?thesis by simp
qed

lemma mset_random_sample: "mset (random_sample rs pool k) \<subseteq># mset pool"
proof (induction k arbitrary: rs pool)
  case 0
  then show ?case by simp
next
  case (Suc k)
  show ?case
  proof (cases "pool = []")
    case True
    then show ?thesis by simp
  next
    case False
    define j where "j = (case rs of [] \<Rightarrow> 0 | r # rest \<Rightarrow> r mod length pool)"
    have j: "j < length pool"
      using False by (auto simp: j_def split: list.splits)
    have "mset (random_sample rs pool (Suc k)) =
        add_mset (pool ! j) (mset (random_sample (tl rs) (take j pool @ drop (Suc j) pool) k))"
      using False by (simp add: j_def [symmetric] Let_def)
    also have "\<dots> \<subseteq># add_mset (pool ! j) (mset (take j pool @ drop (Suc j) pool))"
      using Suc.IH [of "tl rs" "take j pool @ drop (Suc j) pool"] by simp
    also have "\<dots> = mset pool"
      using mset_remove_nth [OF j] by simp
    finally show ?thesis .
  qed
qed

lemma numbered_airplanes_fields:
  "map plane_model (numbered_airplanes i ms a cyc home) = map model_id ms"
  "map plane_value (numbered_airplanes i ms a cyc home) = map model_price ms"
  "p \<in> set (numbered_airplanes i ms a cyc home) \<Longrightarrow>
     plane_owner p = a \<and> plane_condition p = 100 \<and> plane_depreciation_rate p = 0
     \<and> \<not> plane_is_sold p \<and> plane_constructed_cycle p = cyc \<and> plane_purchased_cycle p = cyc
     \<and> plane_home p = home"
  by (induction ms arbitrary: i) (auto simp: new_airplane_def)

lemma filter_owner_numbered:
  "filter (\<lambda>p. plane_owner p = a) (numbered_airplanes i ms a cyc home)
     = numbered_airplanes i ms a cyc home"
  by (induction ms arbitrary: i) (auto simp: new_airplane_def)

lemma planes_after_rebuild:
  "filter (\<lambda>p. plane_owner p = a) (airplane (fold apply_stmt (rebuild_stmts rs i d a cc cyc models) d))
     = fleet rs i models a cyc (hq_airport_of cc d)"
  by (simp add: rebuilt_tables fleet_def filter_owner_numbered)

lemma bases_after_rebuild:
  "filter (\<lambda>r. base_airline r = a) (airline_base (fold apply_stmt (rebuild_stmts rs i d a cc cyc models) d))
     = hq_rows a cc cyc d"
  by (auto simp: rebuilt_tables hq_rows_def new_base_def split: option.splits)

subsection \<open>A creation that succeeds, and one that finds no airport\<close>

lemma insert_airline_Inr:
  "insert_airline name s = Inr (a, s1) \<Longrightarrow>
     a = airline_auto_increment s
     \<and> s1 = (ran [InsertAirline \<lparr>airline_id = airline_auto_increment s, airline_name = name,
                                   airline_type = 2\<rparr>] s)
              \<lparr>airline_auto_increment := airline_auto_increment s + 1\<rparr>"
  by (auto simp: insert_airline_def and_then_Inr execute_Inr ran_def)

lemma airplane_model_apply [simp]: "airplane_model (apply_stmt q d) = airplane_model d"
  by (cases q) simp_all

lemma cycle_apply [simp]: "cycle (apply_stmt q d) = cycle d"
  by (cases q) simp_all

lemma cheap_models_apply [simp]: "cheap_models (apply_stmt q d) = cheap_models d"
  by (simp add: cheap_models_def)

lemma current_cycle_apply [simp]: "current_cycle (apply_stmt q d) = current_cycle d"
  by (simp add: current_cycle_def max_cycle_def)

lemma create_rest_Inr:
  assumes "create_rest name hq cc cyc s = Inr (resp, sf)"
  shows "executed sf = executed s
           @ [InsertAirline \<lparr>airline_id = airline_auto_increment s, airline_name = name, airline_type = 2\<rparr>,
              InsertInfo (new_info (airline_auto_increment s) cc),
              InsertBase (new_base hq (airline_auto_increment s) cyc cc),
              SelectCheapModels]
           @ map InsertAirplane
               (fleet (rng s) (airplane_auto_increment s) (cheap_models (working s))
                  (airline_auto_increment s) cyc (Some hq))
           @ [Commit]"
    and "committed sf = fold apply_stmt
           ([InsertAirline \<lparr>airline_id = airline_auto_increment s, airline_name = name, airline_type = 2\<rparr>,
              InsertInfo (new_info (airline_auto_increment s) cc),
              InsertBase (new_base hq (airline_auto_increment s) cyc cc),
              SelectCheapModels]
           @ map InsertAirplane
               (fleet (rng s) (airplane_auto_increment s) (cheap_models (working s))
                  (airline_auto_increment s) cyc (Some hq))) (working s)"
    and "resp = \<lparr>success = True, http_status = 200,
                  message = created_message name (airline_auto_increment s) cc
                     (min 5 (length (cheap_models (working s)))),
                  bots_reset = None, created_airline_id = Some (airline_auto_increment s)\<rparr>"
proof -
  define a where "a = airline_auto_increment s"
  define pre where "pre = [InsertAirline \<lparr>airline_id = a, airline_name = name, airline_type = 2\<rparr>,
              InsertInfo (new_info a cc), InsertBase (new_base hq a cyc cc), SelectCheapModels]"
  from assms obtain a0 s1 n1 s2 n2 s3 models s4 added s5 u where
    1: "insert_airline name s = Inr (a0, s1)" and
    2: "execute (InsertInfo (new_info a0 cc)) s1 = Inr (n1, s2)" and
    3: "execute (InsertBase (new_base hq a0 cyc cc)) s2 = Inr (n2, s3)" and
    q: "query SelectCheapModels cheap_models s3 = Inr (models, s4)" and
    5: "add_random_airplanes models a0 cyc (Some hq) s4 = Inr (added, s5)" and
    c: "commit s5 = Inr (u, sf)" and
    7: "resp = \<lparr>success = True, http_status = 200,
                  message = created_message name a0 cc added,
                  bots_reset = None, created_airline_id = Some a0\<rparr>"
    unfolding create_rest_def and_then_Inr return_io_Inr by blast
  note i = insert_airline_Inr [OF 1]
  have a0: "a0 = a"
    using i by (simp add: a_def)
  have 4: "s4 = ran [InsertInfo (new_info a cc), InsertBase (new_base hq a cyc cc), SelectCheapModels] s1"
    using 2 3 q by (simp add: execute_Inr query_Inr ran_ran a0)
  have 6: "sf = (ran [Commit] s5)\<lparr>committed := working s5\<rparr>"
    using c by (simp add: commit_Inr)
  have s4: "s4 = (ran pre s)\<lparr>airline_auto_increment := a + 1\<rparr>"
    using i 4 by (simp add: ran_def pre_def a_def)
  have models: "models = cheap_models (working s)"
    using q i 2 3 by (simp add: execute_Inr query_Inr ran_fields del: apply_stmt.simps)
  note r = add_random_airplanes_Inr [OF 5 [unfolded models a0]]
  have f: "fleet (rng s4) (airplane_auto_increment s4) (cheap_models (working s)) a cyc (Some hq)
      = fleet (rng s) (airplane_auto_increment s) (cheap_models (working s)) a cyc (Some hq)"
    using s4 by (simp add: ran_fields)
  show "executed sf = executed s
           @ [InsertAirline \<lparr>airline_id = airline_auto_increment s, airline_name = name, airline_type = 2\<rparr>,
              InsertInfo (new_info (airline_auto_increment s) cc),
              InsertBase (new_base hq (airline_auto_increment s) cyc cc),
              SelectCheapModels]
           @ map InsertAirplane
               (fleet (rng s) (airplane_auto_increment s) (cheap_models (working s))
                  (airline_auto_increment s) cyc (Some hq))
           @ [Commit]"
    using 6 r s4 f by (simp add: ran_fields pre_def a_def)
  show "committed sf = fold apply_stmt
           ([InsertAirline \<lparr>airline_id = airline_auto_increment s, airline_name = name, airline_type = 2\<rparr>,
              InsertInfo (new_info (airline_auto_increment s) cc),
              InsertBase (new_base hq (airline_auto_increment s) cyc cc),
              SelectCheapModels]
           @ map InsertAirplane
               (fleet (rng s) (airplane_auto_increment s) (cheap_models (working s))
                  (airline_auto_increment s) cyc (Some hq))) (working s)"
    using 6 r s4 f by (simp add: ran_fields pre_def a_def)
  show "resp = \<lparr>success = True, http_status = 200,
                  message = created_message name (airline_auto_increment s) cc
                     (min 5 (length (cheap_models (working s)))),
                  bots_reset = None, created_airline_id = Some (airline_auto_increment s)\<rparr>"
    using 7 r f a0 by (simp add: a_def length_fleet)
qed

lemma create_bot_body_eq:
  "create_bot_body req =
     and_then (query SelectMaxCycle current_cycle) (\<lambda>cyc.
     and_then (query (lookup_stmt req) (create_target req)) (\<lambda>target.
       case target of
         Some (hq, cc) \<Rightarrow> create_rest (requested_name req) hq cc cyc
       | None \<Rightarrow> return_io (not_found (unresolved_message req))))"
  unfolding create_bot_body_def Let_def
  by (rule arg_cong [where f = "and_then (query SelectMaxCycle current_cycle)"], rule ext)
     (auto simp: fun_eq_iff and_then_def query_def lookup_stmt_def create_target_def
        unresolved_message_def requested_name_def requested_country_def return_io_def
        split: sum.splits option.splits)

lemma airport_apply [simp]: "airport (apply_stmt q d) = airport d"
  by (cases q) simp_all

lemma create_target_apply [simp]: "create_target req (apply_stmt q d) = create_target req d"
  by (simp add: create_target_def airport_by_iata_def largest_airport_def)

lemma create_bot_success:
  assumes "success (fst (create_bot e d req))"
  obtains hq cc where
    "create_target req d = Some (hq, cc)"
    and "executed (snd (create_bot e d req)) =
           [SelectMaxCycle, lookup_stmt req] @ create_stmts e d (requested_name req) hq cc @ [Commit]"
    and "committed (snd (create_bot e d req)) =
           fold apply_stmt (create_stmts e d (requested_name req) hq cc) d"
    and "fst (create_bot e d req) =
           \<lparr>success = True, http_status = 200,
            message = created_message (requested_name req) (next_airline_id e) cc
               (min 5 (length (cheap_models d))),
            bots_reset = None, created_airline_id = Some (next_airline_id e)\<rparr>"
proof -
  from assms obtain resp sf where
    body: "create_bot_body req (connect e d) = Inr (resp, sf)" and ok: "success resp" and
    run: "create_bot e d req = (resp, close sf)"
    unfolding create_bot_def by (rule run_handler_success)
  define s2 where "s2 = ran [SelectMaxCycle, lookup_stmt req] (connect e d)"
  from body obtain cyc s1 target s2' where
    1: "query SelectMaxCycle current_cycle (connect e d) = Inr (cyc, s1)" and
    2: "query (lookup_stmt req) (create_target req) s1 = Inr (target, s2')" and
    3: "(case target of
         Some (hq, cc) \<Rightarrow> create_rest (requested_name req) hq cc cyc
       | None \<Rightarrow> return_io (not_found (unresolved_message req))) s2' = Inr (resp, sf)"
    unfolding create_bot_body_eq and_then_Inr by blast
  have cyc: "cyc = current_cycle d" and s2': "s2' = s2" and target: "target = create_target req d"
    using 1 2 by (simp_all add: query_Inr ran_ran ran_fields s2_def connect_def del: apply_stmt.simps)
  from 3 ok obtain hq cc where t: "create_target req d = Some (hq, cc)"
    and rest: "create_rest (requested_name req) hq cc (current_cycle d) s2 = Inr (resp, sf)"
    by (cases target) (auto simp: return_io_Inr not_found_def cyc s2' target)
  have w: "working s2 = d" "rng s2 = random_numbers e"
    "airline_auto_increment s2 = next_airline_id e"
    "airplane_auto_increment s2 = next_airplane_id e"
    "executed s2 = [SelectMaxCycle, lookup_stmt req]"
    by (simp_all add: s2_def ran_fields connect_def lookup_stmt_def)
  note r = create_rest_Inr [OF rest, unfolded w]
  show ?thesis
  proof (rule that [OF t])
    show "executed (snd (create_bot e d req)) =
           [SelectMaxCycle, lookup_stmt req] @ create_stmts e d (requested_name req) hq cc @ [Commit]"
      using run r(1) by (simp add: close_def create_stmts_def)
    show "committed (snd (create_bot e d req)) =
           fold apply_stmt (create_stmts e d (requested_name req) hq cc) d"
      using run r(2) by (simp add: close_def create_stmts_def)
    show "fst (create_bot e d req) =
           \<lparr>success = True, http_status = 200,
            message = created_message (requested_name req) (next_airline_id e) cc
               (min 5 (length (cheap_models d))),
            bots_reset = None, created_airline_id = Some (next_airline_id e)\<rparr>"
      using run r(3) by simp
  qed
qed

lemma create_bot_unresolved:
  assumes "create_target req d = None"
  shows "fst (create_bot e d req) =
           (if fault e = Some 0 \<or> fault e = Some 1 then error_response StorageError
            else not_found (unresolved_message req))"
    and "committed (snd (create_bot e d req)) = d"
    and "executed (snd (create_bot e d req)) =
           (if fault e = Some 0 then [] else if fault e = Some 1 then [SelectMaxCycle]
            else [SelectMaxCycle, lookup_stmt req])"
  using assms
  by (auto simp: create_bot_def create_bot_body_eq run_handler_def and_then_def query_def
      execute_def storage_fails_def connect_def return_io_def close_def rollback_def
      lookup_stmt_def)

subsection \<open>Runs on a storage that does not fail\<close>

lemma unfailing_return: "unfailing (return_io a)"
  by (simp add: unfailing_def return_io_def)

lemma unfailing_execute: "unfailing (execute q)"
  by (simp add: unfailing_def execute_def storage_fails_def)

lemma unfailing_and_then:
  assumes "unfailing m" and "\<And>a. unfailing (f a)"
  shows "unfailing (and_then m f)"
  unfolding unfailing_def
proof (intro allI impI)
  fix s :: session
  assume "fail_at s = None"
  with assms(1) obtain a s0 where 1: "m s = Inr (a, s0)" and "fail_at s0 = None"
    unfolding unfailing_def by blast
  with assms(2) [of a] obtain b s1 where "f a s0 = Inr (b, s1)" "fail_at s1 = None"
    unfolding unfailing_def by blast
  with 1 show "\<exists>b s1. and_then m f s = Inr (b, s1) \<and> fail_at s1 = None"
    by (simp add: and_then_def)
qed

lemma unfailing_query: "unfailing (query q f)"
  unfolding query_def
  by (rule unfailing_and_then [OF unfailing_execute]) (simp add: unfailing_def)

lemma unfailing_sample: "unfailing (sample_io pool k)"
  by (simp add: unfailing_def sample_io_def)

lemma unfailing_insert_airplane: "unfailing (insert_airplane m owner cyc home)"
  by (simp add: unfailing_def insert_airplane_def and_then_def execute_def storage_fails_def)

lemma unfailing_insert_airplanes: "unfailing (insert_airplanes ms owner cyc home added)"
  by (induction ms arbitrary: added)
     (simp_all add: unfailing_return unfailing_and_then unfailing_insert_airplane)

lemma unfailing_add_random_airplanes: "unfailing (add_random_airplanes models a cyc home)"
  by (simp add: add_random_airplanes_def unfailing_return unfailing_and_then
      unfailing_sample unfailing_insert_airplanes)

lemma unfailing_delete_dependents: "unfailing (delete_dependents a)"
  unfolding delete_dependents_def
  by (intro unfailing_and_then unfailing_execute unfailing_return)

lemma unfailing_teardown_and_rebuild: "unfailing (teardown_and_rebuild a cc cyc models)"
  unfolding teardown_and_rebuild_def
  by (intro unfailing_and_then unfailing_delete_dependents unfailing_add_random_airplanes
      unfailing_return)
     (simp_all add: reset_profile_def find_hq_airport_def create_hq_base_def
        unfailing_execute unfailing_query unfailing_return unfailing_and_then)

lemma completes_and_then:
  assumes "unfailing m" and "\<And>a. completes (f a)"
  shows "completes (and_then m f)"
  unfolding completes_def
proof (intro allI impI)
  fix s :: session
  assume "fail_at s = None"
  with assms(1) obtain a s0 where 1: "m s = Inr (a, s0)" and "fail_at s0 = None"
    unfolding unfailing_def by blast
  with assms(2) [of a] obtain resp s1 where "f a s0 = Inr (resp, s1)" "success resp"
    unfolding completes_def by blast
  with 1 show "\<exists>resp s1. and_then m f s = Inr (resp, s1) \<and> success resp"
    by (simp add: and_then_def)
qed

lemma completes_commit: "success r \<Longrightarrow> completes (and_then commit (\<lambda>u. return_io r))"
  by (simp add: completes_def and_then_def commit_def return_io_def storage_fails_def)

lemma reset_single_bot_completes:
  assumes "fault e = None" and "fetchone (select_airline b d) = Some abot"
    and "bot_airline_type abot = 2"
  shows "success (fst (reset_single_bot e d b))"
proof -
  have "completes
     (and_then (query SelectMaxCycle current_cycle) (\<lambda>cyc.
      and_then (query SelectCheapModels cheap_models) (\<lambda>models.
      and_then (teardown_and_rebuild b (infer_country abot) cyc models) (\<lambda>r.
      and_then commit (\<lambda>u.
      return_io \<lparr>success = True, http_status = 200,
                 message = reset_single_message (bot_name abot) r,
                 bots_reset = None, created_airline_id = None\<rparr>)))))"
    by (intro completes_and_then unfailing_query unfailing_teardown_and_rebuild
        completes_commit) simp
  moreover have "fail_at (ran [SelectAirline b] (connect e d)) = None"
    using assms(1) by (simp add: ran_fields connect_def)
  ultimately obtain resp s1 where
    "and_then (query SelectMaxCycle current_cycle) (\<lambda>cyc.
      and_then (query SelectCheapModels cheap_models) (\<lambda>models.
      and_then (teardown_and_rebuild b (infer_country abot) cyc models) (\<lambda>r.
      and_then commit (\<lambda>u.
      return_io \<lparr>success = True, http_status = 200,
                 message = reset_single_message (bot_name abot) r,
                 bots_reset = None, created_airline_id = None\<rparr>))))
       (ran [SelectAirline b] (connect e d)) = Inr (resp, s1)" and "success resp"
    unfolding completes_def by blast
  moreover have "query (SelectAirline b) (\<lambda>d. fetchone (select_airline b d)) (connect e d)
     = Inr (Some abot, ran [SelectAirline b] (connect e d))"
    using assms by (simp add: query_def and_then_def execute_def storage_fails_def connect_def ran_def)
  ultimately have "reset_single_bot_body b (connect e d) = Inr (resp, s1)"
    using assms(3) by (simp add: reset_single_bot_body_def and_then_def)
  with \<open>success resp\<close> show ?thesis
    by (simp add: reset_single_bot_def run_handler_def)
qed

lemma created_tables:
  fixes e d name hq cc
  defines "D \<equiv> fold apply_stmt (create_stmts e d name hq cc) d"
  shows "airline D = airline d
           @ [\<lparr>airline_id = next_airline_id e, airline_name = name, airline_type = 2\<rparr>]"
    and "airline_info D = airline_info d @ [new_info (next_airline_id e) cc]"
    and "airline_base D = airline_base d
           @ [new_base hq (next_airline_id e) (current_cycle d) cc]"
    and "airplane D = airplane d
           @ fleet (random_numbers e) (next_airplane_id e) (cheap_models d) (next_airline_id e)
               (current_cycle d) (Some hq)"
  unfolding D_def create_stmts_def
  by (simp_all add: fold_insert_airplanes)

subsection \<open>The rows of an airline after a rebuild\<close>

lemma hq_rows_count:
  "\<forall>ap \<in> set (airport d). airport_id ap \<noteq> 0 \<Longrightarrow>
     length (hq_rows a cc cyc d) = (if hq_airport_of cc d = None then 0 else 1)"
proof -
  assume ids: "\<forall>ap \<in> set (airport d). airport_id ap \<noteq> 0"
  have in_set: "first_ranked xs = Some ap \<Longrightarrow> ap \<in> set xs" for xs ap
    by (induction xs arbitrary: ap) (auto split: option.splits if_splits)
  have "h \<noteq> 0" if "hq_airport_of cc d = Some h" for h
  proof -
    from that obtain ap where "largest_airport (str_of cc) d = Some ap" "h = airport_id ap"
      by (auto simp: hq_airport_of_def split: if_splits)
    with in_set [of "filter (\<lambda>a. airport_country_code a = str_of cc) (airport d)" ap] ids
    show ?thesis by (auto simp: largest_airport_def)
  qed
  then show ?thesis
    by (auto simp: hq_rows_def split: option.splits)
qed

lemma hq_rows_fields:
  "r \<in> set (hq_rows a cc cyc d) \<Longrightarrow> base_airline r = a \<and> base_headquarter r \<and> base_scale r = 1"
  by (auto simp: hq_rows_def new_base_def split: option.splits if_splits)

lemma fleet_fields:
  "p \<in> set (fleet rs i models a cyc home) \<Longrightarrow>
     plane_owner p = a \<and> plane_condition p = 100 \<and> plane_depreciation_rate p = 0
     \<and> \<not> plane_is_sold p \<and> plane_constructed_cycle p = cyc \<and> plane_purchased_cycle p = cyc
     \<and> plane_home p = home"
  unfolding fleet_def by (rule numbered_airplanes_fields(3))

lemma profiles_after_rebuild:
  "filter (\<lambda>i. info_airline i = a) (airline_info (fold apply_stmt (rebuild_stmts rs i d a cc cyc models) d))
     = map (reset_row a cc) (filter (\<lambda>i. info_airline i = a) (airline_info d))"
proof -
  have "info_airline (reset_row a cc x) = info_airline x" for x
    by (simp add: reset_row_def)
  then have "filter (\<lambda>i. info_airline i = a) (map (reset_row a cc) xs)
      = map (reset_row a cc) (filter (\<lambda>i. info_airline i = a) xs)" for xs
    by (induction xs) auto
  then show ?thesis
    by (simp add: rebuilt_tables)
qed

lemma reset_row_fields:
  "info_airline x = a \<Longrightarrow>
     info_balance (reset_row a cc x) = 200000 \<and> info_reputation (reset_row a cc x) = 0
     \<and> info_service_quality (reset_row a cc x) = 50"
  by (simp add: reset_row_def)

lemma cheap_models_sorted: "sorted (map model_price (cheap_models d))"
  by (simp add: cheap_models_def)

lemma cheap_models_mset:
  "mset (cheap_models d) = filter_mset (\<lambda>m. model_price m < 40000000) (mset (airplane_model d))"
  by (simp add: cheap_models_def)

subsection \<open>The airport ranking and the name lookup\<close>

lemma first_ranked_in:
  "first_ranked xs = Some ap \<Longrightarrow> ap \<in> set xs"
  by (induction xs arbitrary: ap) (auto split: option.splits if_splits)

lemma first_ranked_None: "first_ranked xs = None \<longleftrightarrow> xs = []"
  by (cases xs) (auto split: option.splits if_splits)

lemma first_ranked_top:
  "first_ranked xs = Some ap \<Longrightarrow> x \<in> set xs \<Longrightarrow> \<not> ranks_before x ap"
proof (induction xs arbitrary: ap x)
  case Nil
  then show ?case by simp
next
  case (Cons a rest)
  show ?case
  proof (cases "first_ranked rest")
    case None
    then have "rest = []" by (simp add: first_ranked_None)
    with Cons.prems None show ?thesis by (auto simp: ranks_before_def)
  next
    case (Some b)
    note IH = Cons.IH [OF Some]
    show ?thesis
    proof (cases "ranks_before b a")
      case True
      with Some Cons.prems have ap: "ap = b" by simp
      from True have "\<not> ranks_before a b" by (auto simp: ranks_before_def)
      with Cons.prems(2) IH ap show ?thesis by auto
    next
      case False
      with Some Cons.prems have ap: "ap = a" by simp
      have "\<not> ranks_before x a" if "x \<in> set rest" for x
        using IH [OF that] False by (auto simp: ranks_before_def)
      with Cons.prems(2) ap show ?thesis by (auto simp: ranks_before_def)
    qed
  qed
qed

lemma starts_with_iff: "starts_with s p \<longleftrightarrow> (\<exists>v. s = p @ v)"
  by (induction s p rule: starts_with.induct) auto

lemma py_in_iff: "py_in p s \<longleftrightarrow> (\<exists>u v. s = u @ p @ v)"
proof (induction s)
  case Nil
  then show ?case by auto
next
  case (Cons d s)
  show ?case
  proof
    assume "py_in p (d # s)"
    then consider "starts_with (d # s) p" | "py_in p s" by auto
    then show "\<exists>u v. d # s = u @ p @ v"
    proof cases
      case 1
      then obtain v where "d # s = p @ v" by (auto simp: starts_with_iff)
      then have "d # s = [] @ p @ v" by simp
      then show ?thesis by blast
    next
      case 2
      with Cons.IH obtain u v where "s = u @ p @ v" by auto
      then have "d # s = (d # u) @ p @ v" by simp
      then show ?thesis by blast
    qed
  next
    assume "\<exists>u v. d # s = u @ p @ v"
    then obtain u v where uv: "d # s = u @ p @ v" by blast
    show "py_in p (d # s)"
    proof (cases u)
      case Nil
      with uv have "starts_with (d # s) p" by (auto simp: starts_with_iff)
      then show ?thesis by simp
    next
      case (Cons c u')
      with uv have "s = u' @ p @ v" by simp
      with Cons.IH have "py_in p s" by blast
      then show ?thesis by simp
    qed
  qed
qed

lemma country_lookup_Some:
  "country_lookup tbl name = Some c \<longleftrightarrow>
     (\<exists>pre k post. tbl = pre @ (k, c) # post \<and> py_in (lower k) (lower name)
        \<and> (\<forall>(k', c') \<in> set pre. \<not> py_in (lower k') (lower name)))"
proof (induction tbl)
  case Nil
  then show ?case by simp
next
  case (Cons kc tbl)
  obtain k0 c0 where kc: "kc = (k0, c0)" by (cases kc)
  show ?case
  proof (cases "py_in (lower k0) (lower name)")
    case True
    have "(\<exists>pre k post. (k0, c0) # tbl = pre @ (k, c) # post \<and> py_in (lower k) (lower name)
        \<and> (\<forall>(k', c') \<in> set pre. \<not> py_in (lower k') (lower name))) \<longleftrightarrow> c0 = c"
    proof
      assume "\<exists>pre k post. (k0, c0) # tbl = pre @ (k, c) # post \<and> py_in (lower k) (lower name)
        \<and> (\<forall>(k', c') \<in> set pre. \<not> py_in (lower k') (lower name))"
      then obtain pre k post where *: "(k0, c0) # tbl = pre @ (k, c) # post"
        "\<forall>(k', c') \<in> set pre. \<not> py_in (lower k') (lower name)" by blast
      show "c0 = c"
      proof (cases pre)
        case Nil
        with * show ?thesis by simp
      next
        case (Cons x pre')
        with * True show ?thesis by auto
      qed
    next
      assume "c0 = c"
      then have "(k0, c0) # tbl = [] @ (k0, c) # tbl" by simp
      with True show "\<exists>pre k post. (k0, c0) # tbl = pre @ (k, c) # post \<and> py_in (lower k) (lower name)
        \<and> (\<forall>(k', c') \<in> set pre. \<not> py_in (lower k') (lower name))"
        by (metis empty_iff list.set(1))
    qed
    with True kc show ?thesis by auto
  next
    case False
    have "(\<exists>pre k post. (k0, c0) # tbl = pre @ (k, c) # post \<and> py_in (lower k) (lower name)
        \<and> (\<forall>(k', c') \<in> set pre. \<not> py_in (lower k') (lower name)))
      \<longleftrightarrow> (\<exists>pre k post. tbl = pre @ (k, c) # post \<and> py_in (lower k) (lower name)
        \<and> (\<forall>(k', c') \<in> set pre. \<not> py_in (lower k') (lower name)))"
    proof
      assume "\<exists>pre k post. (k0, c0) # tbl = pre @ (k, c) # post \<and> py_in (lower k) (lower name)
        \<and> (\<forall>(k', c') \<in> set pre. \<not> py_in (lower k') (lower name))"
      then obtain pre k post where *: "(k0, c0) # tbl = pre @ (k, c) # post"
        "py_in (lower k) (lower name)"
        "\<forall>(k', c') \<in> set pre. \<not> py_in (lower k') (lower name)" by blast
      show "\<exists>pre k post. tbl = pre @ (k, c) # post \<and> py_in (lower k) (lower name)
        \<and> (\<forall>(k', c') \<in> set pre. \<not> py_in (lower k') (lower name))"
      proof (cases pre)
        case Nil
        with * False show ?thesis by auto
      next
        case (Cons x pre')
        with * have "tbl = pre' @ (k, c) # post"
          "\<forall>(k', c') \<in> set pre'. \<not> py_in (lower k') (lower name)" by auto
        with *(2) show ?thesis by blast
      qed
    next
      assume "\<exists>pre k post. tbl = pre @ (k, c) # post \<and> py_in (lower k) (lower name)
        \<and> (\<forall>(k', c') \<in> set pre. \<not> py_in (lower k') (lower name))"
      then obtain pre k post where *: "tbl = pre @ (k, c) # post"
        "py_in (lower k) (lower name)"
        "\<forall>(k', c') \<in> set pre. \<not> py_in (lower k') (lower name)" by blast
      then have "(k0, c0) # tbl = ((k0, c0) # pre) @ (k, c) # post"
        "\<forall>(k', c') \<in> set ((k0, c0) # pre). \<not> py_in (lower k') (lower name)"
        using False by auto
      with *(2) show "\<exists>pre k post. (k0, c0) # tbl = pre @ (k, c) # post \<and> py_in (lower k) (lower name)
        \<and> (\<forall>(k', c') \<in> set pre. \<not> py_in (lower k') (lower name))"
        by blast
    qed
    with False kc Cons.IH show ?thesis by simp
  qed
qed

text \<open>
  How a reset finds the home airport: the stored country code when it is truthy, else the
  code of the first entry of the name table whose lower-cased key occurs in the lower-cased
  name; the airport is one of that country that no other airport of the country precedes
  in the order by size and then population, both descending; without a country code or
  without an airport in the country, a reset that succeeds leaves the airline without a
  base.
\<close>

lemma home_location_resolution:
  "(truthy_str (bot_country_code abot) \<longrightarrow> infer_country abot = bot_country_code abot)
   \<and> (\<not> truthy_str (bot_country_code abot) \<longrightarrow>
        infer_country abot = get_country_for_airline (bot_name abot))
   \<and> (get_country_for_airline name = Some c \<longleftrightarrow>
        (\<exists>pre k post. AIRLINE_COUNTRY_MAP = pre @ (k, c) # post
           \<and> (\<exists>u v. lower name = u @ lower k @ v)
           \<and> (\<forall>(k', c') \<in> set pre. \<not> (\<exists>u v. lower name = u @ lower k' @ v))))
   \<and> (largest_airport c d = Some ap \<longrightarrow>
        ap \<in> set (airport d) \<and> airport_country_code ap = c
        \<and> (\<forall>x \<in> set (airport d). airport_country_code x = c \<longrightarrow>
              airport_size x < airport_size ap
              \<or> (airport_size x = airport_size ap \<and> airport_population x \<le> airport_population ap)))
   \<and> (largest_airport c d = None \<longleftrightarrow> (\<forall>x \<in> set (airport d). airport_country_code x \<noteq> c))
   \<and> (success (fst (reset_single_bot e d b)) \<and> fetchone (select_airline b d) = Some abot
        \<and> hq_airport_of (infer_country abot) d = None \<longrightarrow>
        bases_of b (committed (snd (reset_single_bot e d b))) = [])"
proof (intro conjI impI)
  show "infer_country abot = bot_country_code abot" if "truthy_str (bot_country_code abot)"
    using that by (simp add: infer_country_def)
  show "infer_country abot = get_country_for_airline (bot_name abot)"
    if "\<not> truthy_str (bot_country_code abot)"
    using that by (simp add: infer_country_def)
  show "get_country_for_airline name = Some c \<longleftrightarrow>
        (\<exists>pre k post. AIRLINE_COUNTRY_MAP = pre @ (k, c) # post
           \<and> (\<exists>u v. lower name = u @ lower k @ v)
           \<and> (\<forall>(k', c') \<in> set pre. \<not> (\<exists>u v. lower name = u @ lower k' @ v)))"
    unfolding get_country_for_airline_def country_lookup_Some py_in_iff ..
  show "largest_airport c d = None \<longleftrightarrow> (\<forall>x \<in> set (airport d). airport_country_code x \<noteq> c)"
    by (auto simp: largest_airport_def first_ranked_None filter_empty_conv)
next
  assume l: "largest_airport c d = Some ap"
  then have in_f: "ap \<in> set (filter (\<lambda>a. airport_country_code a = c) (airport d))"
    unfolding largest_airport_def by (rule first_ranked_in)
  then show "ap \<in> set (airport d)" and "airport_country_code ap = c"
    by simp_all
  show "\<forall>x \<in> set (airport d). airport_country_code x = c \<longrightarrow>
              airport_size x < airport_size ap
              \<or> (airport_size x = airport_size ap \<and> airport_population x \<le> airport_population ap)"
  proof (intro ballI impI)
    fix x assume "x \<in> set (airport d)" "airport_country_code x = c"
    then have "x \<in> set (filter (\<lambda>a. airport_country_code a = c) (airport d))" by simp
    with l have "\<not> ranks_before x ap"
      unfolding largest_airport_def by (rule first_ranked_top)
    then show "airport_size x < airport_size ap
              \<or> (airport_size x = airport_size ap \<and> airport_population x \<le> airport_population ap)"
      by (auto simp: ranks_before_def)
  qed
next
  assume a: "success (fst (reset_single_bot e d b)) \<and> fetchone (select_airline b d) = Some abot
        \<and> hq_airport_of (infer_country abot) d = None"
  then obtain abot' where
    "fetchone (select_airline b d) = Some abot'" and
    D: "committed (snd (reset_single_bot e d b)) =
           fold apply_stmt (reset_stmts e d b (infer_country abot')) d"
    using reset_single_bot_success [of e d b] by blast
  with a have "abot' = abot" by simp
  with D a show "bases_of b (committed (snd (reset_single_bot e d b))) = []"
    by (simp add: bases_of_def reset_stmts_def bases_after_rebuild hq_rows_def)
qed

subsection \<open>Atomicity of the single reset\<close>

text \<open>
  C2. If \<^verbatim>\<open>reset_single_bot\<close> raises at any operation, the teardown included, the
  response is the error (status 500, the text of the exception) and the transaction is
  rolled back: the committed database, and the working copy the connection is left with,
  are the database before the request. The same holds for every response that does not
  report success (404, 400, 500).
\<close>

theorem reset_single_bot_rollback:
  "(reset_single_bot_body b (connect e d) = Inl (x, s1) \<longrightarrow>
      fst (reset_single_bot e d b) = error_response x
      \<and> committed (snd (reset_single_bot e d b)) = d
      \<and> working (snd (reset_single_bot e d b)) = d)
   \<and> (\<not> success (fst (reset_single_bot e d b)) \<longrightarrow>
      committed (snd (reset_single_bot e d b)) = d)"
  unfolding reset_single_bot_def
  using run_handler_failure [OF transactional_reset_single_bot_body] by blast

text \<open>
  The storage fails at operation 6, after the routes of airline 1 and their assignments
  were deleted in the working copy.
\<close>

theorem reset_single_bot_rollback_witness:
  "(case reset_single_bot_body 1 (connect (example_env (Some 6)) example_db) of
      Inl (x, s1) \<Rightarrow>
        x = StorageError \<and> link_ids 1 (working s1) = []
    | Inr rs \<Rightarrow> False)
   \<and> link_ids 1 example_db = [10]
   \<and> fst (reset_single_bot (example_env (Some 6)) example_db 1) = error_response StorageError
   \<and> committed (snd (reset_single_bot (example_env (Some 6)) example_db 1)) = example_db"
proof -
  have run: "case reset_single_bot_body 1 (connect (example_env (Some 6)) example_db) of
      Inl (x, s1) \<Rightarrow>
        x = StorageError \<and> link_ids 1 (working s1) = []
    | Inr rs \<Rightarrow> False"
    by code_simp
  then obtain s1 where
    "reset_single_bot_body 1 (connect (example_env (Some 6)) example_db) = Inl (StorageError, s1)"
    by (auto split: sum.splits)
  with reset_single_bot_rollback [of 1 "example_env (Some 6)" example_db StorageError s1]
  have "fst (reset_single_bot (example_env (Some 6)) example_db 1) = error_response StorageError
    \<and> committed (snd (reset_single_bot (example_env (Some 6)) example_db 1)) = example_db"
    by simp
  moreover have "link_ids 1 example_db = [10]"
    by code_simp
  ultimately show ?thesis
    using run by simp
qed

subsection \<open>The batch reset is one transaction\<close>

text \<open>
  C1, as the claim states it, fails. With three bots and a storage failure while the
  second is processed (operation 19), the first bot had been processed (19 operations
  were executed), yet the committed database is the one before the request: the route of
  the first bot is still there, although a reset of that bot alone deletes it. The
  response is one failure with no list of bots.
\<close>

theorem reset_bots_partial_success_counterexample:
  "map bot_id (select_bots example_db) = [1, 2, 3]
   \<and> length (executed (snd (reset_bots (example_env (Some 19)) example_db))) = 19
   \<and> fst (reset_bots (example_env (Some 19)) example_db) = error_response StorageError
   \<and> bots_reset (fst (reset_bots (example_env (Some 19)) example_db)) = None
   \<and> committed (snd (reset_bots (example_env (Some 19)) example_db)) = example_db
   \<and> link_ids 1 example_db = [10]
   \<and> link_ids 1 (committed (snd (reset_single_bot (example_env None) example_db 1))) = []"
  by code_simp

text \<open>
  C1, amended. \<^verbatim>\<open>reset_bots\<close> is all-or-nothing: when the processing of any bot raises,
  the response is one failure (status 500, the text of the exception, no list of bots),
  and the committed database is the one before the request, for the bots processed before
  the failure as well. Whenever the response does not report success, nothing was
  committed.
\<close>

theorem reset_bots_all_or_nothing:
  "(reset_bots_body (connect e d) = Inl (x, s1) \<longrightarrow>
      fst (reset_bots e d) = error_response x
      \<and> bots_reset (fst (reset_bots e d)) = None
      \<and> committed (snd (reset_bots e d)) = d)
   \<and> (\<not> success (fst (reset_bots e d)) \<longrightarrow> committed (snd (reset_bots e d)) = d)"
  unfolding reset_bots_def
  using run_handler_failure [OF transactional_reset_bots_body]
  by (auto simp: error_response_def)

theorem reset_bots_all_or_nothing_witness:
  "(case reset_bots_body (connect (example_env (Some 19)) example_db) of
      Inl (x, s1) \<Rightarrow> x = StorageError \<and> link_ids 1 (working s1) = []
    | Inr rs \<Rightarrow> False)
   \<and> fst (reset_bots (example_env (Some 19)) example_db) = error_response StorageError
   \<and> bots_reset (fst (reset_bots (example_env (Some 19)) example_db)) = None
   \<and> committed (snd (reset_bots (example_env (Some 19)) example_db)) = example_db"
proof -
  have run: "case reset_bots_body (connect (example_env (Some 19)) example_db) of
      Inl (x, s1) \<Rightarrow> x = StorageError \<and> link_ids 1 (working s1) = []
    | Inr rs \<Rightarrow> False"
    by code_simp
  then obtain s1 where
    "reset_bots_body (connect (example_env (Some 19)) example_db) = Inl (StorageError, s1)"
    by (auto split: sum.splits)
  with reset_bots_all_or_nothing [of "example_env (Some 19)" example_db StorageError s1]
  show ?thesis
    using run by (simp add: error_response_def)
qed

subsection \<open>Order of the teardown and dangling references\<close>

text \<open>
  C7. A reset that succeeds has executed, after its three SELECTs, the DELETEs on
  \<^verbatim>\<open>link_assignment\<close>, \<^verbatim>\<open>link_consumption\<close>, \<^verbatim>\<open>link\<close>, \<^verbatim>\<open>airplane_configuration\<close>,
  \<^verbatim>\<open>airplane\<close>, \<^verbatim>\<open>airline_base\<close> and \<^verbatim>\<open>airline_appeal\<close>, in this order, and only then the
  UPDATE of the profile. In the committed database no assignment or consumption row
  refers to the id of a deleted route, no configuration row refers to the id of a deleted
  airplane, and the airline has no route left.
\<close>

theorem reset_single_bot_delete_order:
  "success (fst (reset_single_bot e d b)) \<Longrightarrow>
     take 10 (executed (snd (reset_single_bot e d b))) =
        [SelectAirline b, SelectMaxCycle, SelectCheapModels,
         DeleteLinkAssignments b, DeleteLinkConsumptions b, DeleteLinks b,
         DeleteAirplaneConfigurations b, DeleteAirplanes b, DeleteBases b, DeleteAppeal b]
     \<and> (executed (snd (reset_single_bot e d b)) ! 10 = UpdateInfo b
         \<or> (\<exists>c. executed (snd (reset_single_bot e d b)) ! 10 = UpdateInfoCountry c b))
     \<and> (\<forall>r \<in> set (link_assignment (committed (snd (reset_single_bot e d b)))).
           assignment_link r \<notin> set (link_ids b d))
     \<and> (\<forall>r \<in> set (link_consumption (committed (snd (reset_single_bot e d b)))).
           consumption_link r \<notin> set (link_ids b d))
     \<and> (\<forall>r \<in> set (airplane_configuration (committed (snd (reset_single_bot e d b)))).
           configuration_airplane r \<notin> set (airplane_ids b d))
     \<and> link_ids b (committed (snd (reset_single_bot e d b))) = []"
proof -
  assume "success (fst (reset_single_bot e d b))"
  then obtain abot where
    log: "executed (snd (reset_single_bot e d b)) =
           [SelectAirline b, SelectMaxCycle, SelectCheapModels]
           @ reset_stmts e d b (infer_country abot) @ [Commit]" and
    D: "committed (snd (reset_single_bot e d b)) =
           fold apply_stmt (reset_stmts e d b (infer_country abot)) d"
    by (rule reset_single_bot_success)
  have "take 10 (executed (snd (reset_single_bot e d b))) =
           [SelectAirline b, SelectMaxCycle, SelectCheapModels,
            DeleteLinkAssignments b, DeleteLinkConsumptions b, DeleteLinks b,
            DeleteAirplaneConfigurations b, DeleteAirplanes b, DeleteBases b, DeleteAppeal b]"
    by (simp add: log reset_stmts_def rebuild_stmts_def delete_stmts_def)
  moreover have "executed (snd (reset_single_bot e d b)) ! 10 = UpdateInfo b
         \<or> (\<exists>c. executed (snd (reset_single_bot e d b)) ! 10 = UpdateInfoCountry c b)"
    by (simp add: log reset_stmts_def rebuild_stmts_def delete_stmts_def profile_stmt_def)
  moreover have "\<forall>r \<in> set (link_assignment (committed (snd (reset_single_bot e d b)))).
           assignment_link r \<notin> set (link_ids b d)"
    by (simp add: D reset_stmts_def rebuilt_tables)
  moreover have "\<forall>r \<in> set (link_consumption (committed (snd (reset_single_bot e d b)))).
           consumption_link r \<notin> set (link_ids b d)"
    by (simp add: D reset_stmts_def rebuilt_tables)
  moreover have "\<forall>r \<in> set (airplane_configuration (committed (snd (reset_single_bot e d b)))).
           configuration_airplane r \<notin> set (airplane_ids b d)"
    by (simp add: D reset_stmts_def rebuilt_tables)
  moreover have "link_ids b (committed (snd (reset_single_bot e d b))) = []"
    by (simp add: D reset_stmts_def rebuilt_tables link_ids_def)
  ultimately show ?thesis by blast
qed


text \<open>
  Airline 1 of the example: its route 10 and airplane 50 are deleted; the assignment of
  route 11, which belongs to airline 4, stays.
\<close>

theorem reset_single_bot_delete_order_witness:
  "success (fst (reset_single_bot (example_env None) example_db 1))
   \<and> link_ids 1 example_db = [10] \<and> airplane_ids 1 example_db = [50]
   \<and> take 10 (executed (snd (reset_single_bot (example_env None) example_db 1))) =
        [SelectAirline 1, SelectMaxCycle, SelectCheapModels,
         DeleteLinkAssignments 1, DeleteLinkConsumptions 1, DeleteLinks 1,
         DeleteAirplaneConfigurations 1, DeleteAirplanes 1, DeleteBases 1, DeleteAppeal 1]
   \<and> \<not> (\<exists>r \<in> set (link_assignment (committed (snd (reset_single_bot (example_env None) example_db 1)))).
           assignment_link r \<in> set (link_ids 1 example_db))
   \<and> \<not> (\<exists>r \<in> set (airplane_configuration (committed (snd (reset_single_bot (example_env None) example_db 1)))).
           configuration_airplane r \<in> set (airplane_ids 1 example_db))
   \<and> link_assignment (committed (snd (reset_single_bot (example_env None) example_db 1)))
       = [\<lparr>assignment_link = 11\<rparr>]"
proof -
  have ok: "success (fst (reset_single_bot (example_env None) example_db 1))"
    by code_simp
  have ids: "link_ids 1 example_db = [10] \<and> airplane_ids 1 example_db = [50]"
    by code_simp
  have rows: "link_assignment (committed (snd (reset_single_bot (example_env None) example_db 1)))
       = [\<lparr>assignment_link = 11\<rparr>]"
    by code_simp
  from reset_single_bot_delete_order [OF ok] ok ids rows show ?thesis
    by blast
qed

subsection \<open>Creation without a home airport\<close>

text \<open>
  C9, as the claim states it, fails. A request for the country code ZZ, in which the
  example has no airport, is answered with status 404 and the message of line 1296, and
  nothing is created: the database is unchanged. The same happens for an airport hint
  that matches no airport (line 1284).
\<close>

theorem create_bot_unresolved_counterexample:
  "create_target \<lparr>req_name = Some ''Nowhere Air'', req_country_code = Some ''ZZ'',
                   req_airport_iata = None\<rparr> example_db = None
   \<and> fst (create_bot (example_env None) example_db
            \<lparr>req_name = Some ''Nowhere Air'', req_country_code = Some ''ZZ'',
             req_airport_iata = None\<rparr>)
       = \<lparr>success = False, http_status = 404,
          message = [Lit ''No airport found in country '', Lit ''ZZ''],
          bots_reset = None, created_airline_id = None\<rparr>
   \<and> committed (snd (create_bot (example_env None) example_db
            \<lparr>req_name = Some ''Nowhere Air'', req_country_code = Some ''ZZ'',
             req_airport_iata = None\<rparr>)) = example_db
   \<and> fst (create_bot (example_env None) example_db
            \<lparr>req_name = Some ''Nowhere Air'', req_country_code = None,
             req_airport_iata = Some ''XXX''\<rparr>)
       = \<lparr>success = False, http_status = 404,
          message = [Lit ''Airport '', Lit ''XXX'', Lit '' not found''],
          bots_reset = None, created_airline_id = None\<rparr>
   \<and> airline (committed (snd (create_bot (example_env None) example_db
            \<lparr>req_name = Some ''Nowhere Air'', req_country_code = None,
             req_airport_iata = Some ''XXX''\<rparr>))) = airline example_db"
  by code_simp


text \<open>
  C9, amended. In \<^verbatim>\<open>create_bot\<close> a home airport that cannot be found is fatal. When no
  airport has the IATA code of the hint, or, without a hint, no airport lies in the
  country, the request fails, no airline id is returned and the database is unchanged: no
  airline, profile, base or airplane is created. Unless the storage fails in one of the
  two SELECTs, the response is the 404 of lines 1284 and 1296, after exactly these two
  SELECTs.
\<close>

theorem create_bot_unresolved_is_fatal:
  "create_target req d = None \<Longrightarrow>
     \<not> success (fst (create_bot e d req))
     \<and> created_airline_id (fst (create_bot e d req)) = None
     \<and> committed (snd (create_bot e d req)) = d
     \<and> (fault e \<noteq> Some 0 \<and> fault e \<noteq> Some 1 \<longrightarrow>
          fst (create_bot e d req) =
            \<lparr>success = False, http_status = 404, message = unresolved_message req,
             bots_reset = None, created_airline_id = None\<rparr>
          \<and> executed (snd (create_bot e d req)) = [SelectMaxCycle, lookup_stmt req])"
  using create_bot_unresolved [of req d e]
  by (simp add: error_response_def not_found_def)


theorem create_bot_unresolved_is_fatal_witness:
  "create_target \<lparr>req_name = Some ''Nowhere Air'', req_country_code = Some ''ZZ'',
                   req_airport_iata = None\<rparr> example_db = None
   \<and> fault (example_env None) \<noteq> Some 0 \<and> fault (example_env None) \<noteq> Some 1
   \<and> fst (create_bot (example_env None) example_db
            \<lparr>req_name = Some ''Nowhere Air'', req_country_code = Some ''ZZ'',
             req_airport_iata = None\<rparr>)
       = \<lparr>success = False, http_status = 404,
          message = unresolved_message \<lparr>req_name = Some ''Nowhere Air'',
             req_country_code = Some ''ZZ'', req_airport_iata = None\<rparr>,
          bots_reset = None, created_airline_id = None\<rparr>
   \<and> committed (snd (create_bot (example_env None) example_db
            \<lparr>req_name = Some ''Nowhere Air'', req_country_code = Some ''ZZ'',
             req_airport_iata = None\<rparr>)) = example_db"
proof -
  have t: "create_target \<lparr>req_name = Some ''Nowhere Air'', req_country_code = Some ''ZZ'',
                   req_airport_iata = None\<rparr> example_db = None"
    by code_simp
  have f: "fault (example_env None) \<noteq> Some 0 \<and> fault (example_env None) \<noteq> Some 1"
    by (simp add: example_env_def)
  from create_bot_unresolved_is_fatal [OF t, of "example_env None"] t f show ?thesis
    by simp
qed

subsection \<open>Defaults of a creation request\<close>

text \<open>
  C10. A request without a country code and without an airport hint is handled as the
  request with the country code US, whatever the name is, and a request without a name as
  the request with the name New Bot Airline. When the first succeeds, the HQ airport was
  looked up with \<^verbatim>\<open>country_code = 'US'\<close>, and the new airline's profile and base carry
  the code US: the name plays no part in the choice of the country.
\<close>

theorem create_bot_defaults:
  "create_bot e d \<lparr>req_name = n, req_country_code = None, req_airport_iata = None\<rparr>
     = create_bot e d \<lparr>req_name = n, req_country_code = Some ''US'', req_airport_iata = None\<rparr>
   \<and> create_bot e d \<lparr>req_name = None, req_country_code = c, req_airport_iata = i\<rparr>
     = create_bot e d \<lparr>req_name = Some ''New Bot Airline'', req_country_code = c, req_airport_iata = i\<rparr>
   \<and> (success (fst (create_bot e d \<lparr>req_name = n, req_country_code = None, req_airport_iata = None\<rparr>)) \<longrightarrow>
        (\<exists>ap. largest_airport ''US'' d = Some ap
           \<and> airline_base (committed (snd (create_bot e d \<lparr>req_name = n, req_country_code = None, req_airport_iata = None\<rparr>)))
              = airline_base d @ [new_base (airport_id ap) (next_airline_id e) (current_cycle d) ''US''])
        \<and> airline_info (committed (snd (create_bot e d \<lparr>req_name = n, req_country_code = None, req_airport_iata = None\<rparr>)))
              = airline_info d @ [new_info (next_airline_id e) ''US'']
        \<and> airline (committed (snd (create_bot e d \<lparr>req_name = n, req_country_code = None, req_airport_iata = None\<rparr>)))
              = airline d @ [\<lparr>airline_id = next_airline_id e,
                               airline_name = (case n of None \<Rightarrow> ''New Bot Airline'' | Some x \<Rightarrow> x),
                               airline_type = 2\<rparr>]
        \<and> take 2 (executed (snd (create_bot e d \<lparr>req_name = n, req_country_code = None, req_airport_iata = None\<rparr>)))
              = [SelectMaxCycle, SelectLargestAirport ''US''])"
proof -
  let ?req = "\<lparr>req_name = n, req_country_code = None, req_airport_iata = None\<rparr>"
  let ?name = "case n of None \<Rightarrow> ''New Bot Airline'' | Some x \<Rightarrow> x"
  have 1: "create_bot e d ?req
     = create_bot e d \<lparr>req_name = n, req_country_code = Some ''US'', req_airport_iata = None\<rparr>"
    by (simp add: create_bot_def create_bot_body_def)
  have 2: "create_bot e d \<lparr>req_name = None, req_country_code = c, req_airport_iata = i\<rparr>
     = create_bot e d \<lparr>req_name = Some ''New Bot Airline'', req_country_code = c, req_airport_iata = i\<rparr>"
    by (simp add: create_bot_def create_bot_body_def)
  have 3: "(\<exists>ap. largest_airport ''US'' d = Some ap
           \<and> airline_base (committed (snd (create_bot e d ?req)))
              = airline_base d @ [new_base (airport_id ap) (next_airline_id e) (current_cycle d) ''US''])
        \<and> airline_info (committed (snd (create_bot e d ?req)))
              = airline_info d @ [new_info (next_airline_id e) ''US'']
        \<and> airline (committed (snd (create_bot e d ?req)))
              = airline d @ [\<lparr>airline_id = next_airline_id e, airline_name = ?name, airline_type = 2\<rparr>]
        \<and> take 2 (executed (snd (create_bot e d ?req))) = [SelectMaxCycle, SelectLargestAirport ''US'']"
    if "success (fst (create_bot e d ?req))"
  proof -
    from that obtain hq cc where
      t: "create_target ?req d = Some (hq, cc)" and
      l: "executed (snd (create_bot e d ?req)) =
           [SelectMaxCycle, lookup_stmt ?req] @ create_stmts e d (requested_name ?req) hq cc @ [Commit]" and
      D: "committed (snd (create_bot e d ?req)) =
           fold apply_stmt (create_stmts e d (requested_name ?req) hq cc) d"
      by (rule create_bot_success)
    from t obtain ap where "largest_airport ''US'' d = Some ap" "hq = airport_id ap" "cc = ''US''"
      by (auto simp: create_target_def truthy_str_def requested_country_def)
    with l D show ?thesis
      by (simp add: requested_name_def lookup_stmt_def truthy_str_def requested_country_def
          created_tables)
  qed
  from 1 2 3 show ?thesis by blast
qed


text \<open>
  The name Air France, for which the name table gives FR, is created in the US.
\<close>

theorem create_bot_defaults_witness:
  "get_country_for_airline ''Air France'' = Some ''FR''
   \<and> success (fst (create_bot (example_env None) example_db
        \<lparr>req_name = Some ''Air France'', req_country_code = None, req_airport_iata = None\<rparr>))
   \<and> airline_info (committed (snd (create_bot (example_env None) example_db
        \<lparr>req_name = Some ''Air France'', req_country_code = None, req_airport_iata = None\<rparr>)))
       = airline_info example_db @ [new_info 5 ''US'']
   \<and> airline (committed (snd (create_bot (example_env None) example_db
        \<lparr>req_name = Some ''Air France'', req_country_code = None, req_airport_iata = None\<rparr>)))
       = airline example_db @ [\<lparr>airline_id = 5, airline_name = ''Air France'', airline_type = 2\<rparr>]
   \<and> take 2 (executed (snd (create_bot (example_env None) example_db
        \<lparr>req_name = Some ''Air France'', req_country_code = None, req_airport_iata = None\<rparr>)))
       = [SelectMaxCycle, SelectLargestAirport ''US'']"
proof -
  have fr: "get_country_for_airline ''Air France'' = Some ''FR''"
    by code_simp
  have ok: "success (fst (create_bot (example_env None) example_db
        \<lparr>req_name = Some ''Air France'', req_country_code = None, req_airport_iata = None\<rparr>))"
    by code_simp
  have e: "next_airline_id (example_env None) = 5"
    by (simp add: example_env_def)
  from create_bot_defaults [of "example_env None" example_db "Some ''Air France''" None None] ok
  have "airline_info (committed (snd (create_bot (example_env None) example_db
        \<lparr>req_name = Some ''Air France'', req_country_code = None, req_airport_iata = None\<rparr>)))
       = airline_info example_db @ [new_info (next_airline_id (example_env None)) ''US'']
   \<and> airline (committed (snd (create_bot (example_env None) example_db
        \<lparr>req_name = Some ''Air France'', req_country_code = None, req_airport_iata = None\<rparr>)))
       = airline example_db @ [\<lparr>airline_id = next_airline_id (example_env None),
            airline_name = (case Some ''Air France'' of None \<Rightarrow> ''New Bot Airline'' | Some x \<Rightarrow> x),
            airline_type = 2\<rparr>]
   \<and> take 2 (executed (snd (create_bot (example_env None) example_db
        \<lparr>req_name = Some ''Air France'', req_country_code = None, req_airport_iata = None\<rparr>)))
       = [SelectMaxCycle, SelectLargestAirport ''US'']"
    by blast
  with ok fr e show ?thesis
    by simp
qed

subsection \<open>Fleet provisioning\<close>

text \<open>
  C6. The candidate pool holds exactly the models priced strictly below 40,000,000, in
  ascending order of price. A reset that succeeds leaves the airline with exactly
  min(5, size of the pool) airplanes, none when the pool is empty; they are drawn from the
  pool without replacement (as a multiset the drawn models are contained in the pool), and
  each has condition 100, depreciation rate 0, the price of its model as value, the sold
  flag off and the current cycle as construction and purchase cycle. The response reports
  that number. On a storage that does not fail the reset of a bot airline succeeds,
  whatever the pool holds.
\<close>

theorem fleet_provisioning:
  "sorted (map model_price (cheap_models d))
   \<and> mset (cheap_models d) = filter_mset (\<lambda>m. model_price m < 40000000) (mset (airplane_model d))
   \<and> (success (fst (reset_single_bot e d b)) \<longrightarrow>
        length (planes_of b (committed (snd (reset_single_bot e d b))))
          = min 5 (length (cheap_models d))
        \<and> (\<exists>selected. mset selected \<subseteq># mset (cheap_models d)
              \<and> map plane_model (planes_of b (committed (snd (reset_single_bot e d b))))
                  = map model_id selected
              \<and> map plane_value (planes_of b (committed (snd (reset_single_bot e d b))))
                  = map model_price selected)
        \<and> (\<forall>p \<in> set (planes_of b (committed (snd (reset_single_bot e d b)))).
              plane_condition p = 100 \<and> plane_depreciation_rate p = 0 \<and> \<not> plane_is_sold p
              \<and> plane_constructed_cycle p = current_cycle d
              \<and> plane_purchased_cycle p = current_cycle d)
        \<and> (\<exists>(abot :: bot_row) r. message (fst (reset_single_bot e d b)) = reset_single_message (bot_name abot) r
              \<and> aircraft_added r = min 5 (length (cheap_models d))))
   \<and> (fault e = None
       \<and> (\<exists>abot. fetchone (select_airline b d) = Some abot \<and> bot_airline_type abot = 2) \<longrightarrow>
        success (fst (reset_single_bot e d b)))"
proof (intro conjI impI)
  show "sorted (map model_price (cheap_models d))"
    by (rule cheap_models_sorted)
  show "mset (cheap_models d) = filter_mset (\<lambda>m. model_price m < 40000000) (mset (airplane_model d))"
    by (rule cheap_models_mset)
next
  assume "fault e = None
       \<and> (\<exists>abot. fetchone (select_airline b d) = Some abot \<and> bot_airline_type abot = 2)"
  then show "success (fst (reset_single_bot e d b))"
    using reset_single_bot_completes by blast
next
  assume ok: "success (fst (reset_single_bot e d b))"
  then obtain abot where
    D: "committed (snd (reset_single_bot e d b)) =
           fold apply_stmt (reset_stmts e d b (infer_country abot)) d" and
    msg: "message (fst (reset_single_bot e d b)) =
           reset_single_message (bot_name abot)
             \<lparr>routes_deleted = length (filter (\<lambda>l. link_airline l = b) (link d)),
              aircraft_deleted = length (filter (\<lambda>p. plane_owner p = b) (airplane d)),
              bases_deleted = length (filter (\<lambda>r. base_airline r = b) (airline_base d)),
              hq_inserted = truthy_id (hq_airport_of (infer_country abot) d),
              aircraft_added = min 5 (length (cheap_models d))\<rparr>"
    by (rule reset_single_bot_success)
  define selected where
    "selected = random_sample (random_numbers e) (cheap_models d) (min 5 (length (cheap_models d)))"
  have A: "planes_of b (committed (snd (reset_single_bot e d b)))
      = numbered_airplanes (next_airplane_id e) selected b (current_cycle d)
          (hq_airport_of (infer_country abot) d)"
    by (simp add: planes_of_def D reset_stmts_def planes_after_rebuild fleet_def selected_def)
  show "length (planes_of b (committed (snd (reset_single_bot e d b))))
          = min 5 (length (cheap_models d))"
    unfolding A by (simp add: selected_def length_random_sample)
  show "\<exists>selected. mset selected \<subseteq># mset (cheap_models d)
              \<and> map plane_model (planes_of b (committed (snd (reset_single_bot e d b))))
                  = map model_id selected
              \<and> map plane_value (planes_of b (committed (snd (reset_single_bot e d b))))
                  = map model_price selected"
    unfolding A
    by (rule exI [of _ selected]) (simp add: numbered_airplanes_fields selected_def mset_random_sample)
  show "\<forall>p \<in> set (planes_of b (committed (snd (reset_single_bot e d b)))).
              plane_condition p = 100 \<and> plane_depreciation_rate p = 0 \<and> \<not> plane_is_sold p
              \<and> plane_constructed_cycle p = current_cycle d
              \<and> plane_purchased_cycle p = current_cycle d"
    unfolding A using numbered_airplanes_fields(3) by blast
  define r where "r =
             \<lparr>routes_deleted = length (filter (\<lambda>l. link_airline l = b) (link d)),
              aircraft_deleted = length (filter (\<lambda>p. plane_owner p = b) (airplane d)),
              bases_deleted = length (filter (\<lambda>r. base_airline r = b) (airline_base d)),
              hq_inserted = truthy_id (hq_airport_of (infer_country abot) d),
              aircraft_added = min 5 (length (cheap_models d))\<rparr>"
  have "message (fst (reset_single_bot e d b)) = reset_single_message (bot_name abot) r
      \<and> aircraft_added r = min 5 (length (cheap_models d))"
    using msg by (simp add: r_def)
  then show "\<exists>(abot :: bot_row) r. message (fst (reset_single_bot e d b)) = reset_single_message (bot_name abot) r
              \<and> aircraft_added r = min 5 (length (cheap_models d))"
    by blast
qed


text \<open>
  Airline 1 of the example: the pool is models 3 and 2, the random numbers 1 and 0 draw
  model 2 and then model 3. With the model table cut down to its first row, whose price
  is 40,000,000 exactly, the pool is empty, the reset succeeds and no airplane is added.
\<close>

theorem fleet_provisioning_witness:
  "fault (example_env None) = None
   \<and> fetchone (select_airline 1 example_db)
       = Some \<lparr>bot_id = 1, bot_name = ''Air France Express'', bot_airline_type = 2,
               bot_country_code = None\<rparr>
   \<and> success (fst (reset_single_bot (example_env None) example_db 1))
   \<and> map model_id (cheap_models example_db) = [3, 2]
   \<and> length (planes_of 1 (committed (snd (reset_single_bot (example_env None) example_db 1)))) = 2
   \<and> map plane_model (planes_of 1 (committed (snd (reset_single_bot (example_env None) example_db 1))))
       = [2, 3]
   \<and> cheap_models (example_db\<lparr>airplane_model := take 1 (airplane_model example_db)\<rparr>) = []
   \<and> success (fst (reset_single_bot (example_env None)
        (example_db\<lparr>airplane_model := take 1 (airplane_model example_db)\<rparr>) 1))
   \<and> length (planes_of 1 (committed (snd (reset_single_bot (example_env None)
        (example_db\<lparr>airplane_model := take 1 (airplane_model example_db)\<rparr>) 1)))) = 0"
proof -
  let ?d0 = "example_db\<lparr>airplane_model := take 1 (airplane_model example_db)\<rparr>"
  have f: "fault (example_env None) = None"
    by (simp add: example_env_def)
  have b1: "fetchone (select_airline 1 example_db)
       = Some \<lparr>bot_id = 1, bot_name = ''Air France Express'', bot_airline_type = 2,
               bot_country_code = None\<rparr>"
    by code_simp
  have b0: "fetchone (select_airline 1 ?d0)
       = Some \<lparr>bot_id = 1, bot_name = ''Air France Express'', bot_airline_type = 2,
               bot_country_code = None\<rparr>"
    by code_simp
  have pool: "map model_id (cheap_models example_db) = [3, 2]"
    by code_simp
  have pool0: "cheap_models ?d0 = []"
    by code_simp
  have drawn: "map plane_model (planes_of 1 (committed (snd (reset_single_bot (example_env None) example_db 1))))
       = [2, 3]"
    by code_simp
  note t1 = fleet_provisioning [of example_db "example_env None" 1]
  note t0 = fleet_provisioning [of ?d0 "example_env None" 1]
  have ex1: "\<exists>abot. fetchone (select_airline 1 example_db) = Some abot \<and> bot_airline_type abot = 2"
    using b1 by simp
  have ex0: "\<exists>abot. fetchone (select_airline 1 ?d0) = Some abot \<and> bot_airline_type abot = 2"
    using b0 by simp
  from t1 f ex1 have ok1: "success (fst (reset_single_bot (example_env None) example_db 1))"
    by blast
  from t0 f ex0 have ok0: "success (fst (reset_single_bot (example_env None) ?d0 1))"
    by blast
  from t1 ok1 have "length (planes_of 1 (committed (snd (reset_single_bot (example_env None) example_db 1))))
      = min 5 (length (cheap_models example_db))"
    by blast
  moreover have "length (cheap_models example_db) = 2"
    using pool by (metis length_map length_Cons list.size(3) numeral_2_eq_2)
  moreover from t0 ok0 have "length (planes_of 1 (committed (snd (reset_single_bot (example_env None) ?d0 1))))
      = min 5 (length (cheap_models ?d0))"
    by blast
  ultimately show ?thesis
    using f b1 ok1 ok0 pool pool0 drawn by simp
qed

subsection \<open>The state after a reset or a creation\<close>

text \<open>
  C3, as the claim states it, fails for a reset. Airline 3 of the example is a bot without
  a profile row, which the LEFT JOIN of line 1133 admits. Its reset succeeds, and the
  UPDATE of lines 1192-1196 was executed, with the country code AU that its name gives;
  it changes the rows that exist and inserts none, so after the reset the airline still
  has no profile row: there is no balance of 200,000, no reputation and no service quality.
\<close>

theorem reset_without_profile_counterexample:
  "fetchone (select_airline 3 example_db)
       = Some \<lparr>bot_id = 3, bot_name = ''Qantas Link'', bot_airline_type = 2,
               bot_country_code = None\<rparr>
   \<and> profiles_of 3 example_db = []
   \<and> success (fst (reset_single_bot (example_env None) example_db 3))
   \<and> executed (snd (reset_single_bot (example_env None) example_db 3)) ! 10
       = UpdateInfoCountry ''AU'' 3
   \<and> profiles_of 3 (committed (snd (reset_single_bot (example_env None) example_db 3))) = []
   \<and> \<not> (\<exists>i \<in> set (airline_info (committed (snd (reset_single_bot (example_env None) example_db 3)))).
          info_airline i = 3 \<and> info_balance i = 200000)"
  by code_simp

text \<open>
  C3, amended. A reset updates the profile, it does not create one: after a reset that
  succeeds the airline has as many profile rows as before (none, if it had none), and
  every profile row it has carries balance 200,000, reputation 0 and service quality 50.
  The rest is as the claim states it: the airline has exactly one base when a home airport
  was found and none otherwise, every base of it is a headquarters of scale 1, and it has
  at most 5 airplanes, each with condition 100 and the sold flag off. The airport ids are
  taken to be non-zero, as keys of the table are. After a creation that succeeds, the new
  airline, whose id no row of the profile, base and airplane tables used before, has
  exactly one profile row with these values, exactly one base, a headquarters of scale 1,
  and at most 5 such airplanes.
\<close>

theorem provisioned_state:
  "(success (fst (reset_single_bot e d b)) \<and> (\<forall>ap \<in> set (airport d). airport_id ap \<noteq> 0) \<longrightarrow>
      (\<forall>i \<in> set (profiles_of b (committed (snd (reset_single_bot e d b)))).
          info_balance i = 200000 \<and> info_reputation i = 0 \<and> info_service_quality i = 50)
      \<and> length (profiles_of b (committed (snd (reset_single_bot e d b)))) = length (profiles_of b d)
      \<and> (\<exists>abot. fetchone (select_airline b d) = Some abot
            \<and> length (bases_of b (committed (snd (reset_single_bot e d b))))
               = (if hq_airport_of (infer_country abot) d = None then 0 else 1))
      \<and> (\<forall>r \<in> set (bases_of b (committed (snd (reset_single_bot e d b)))).
            base_headquarter r \<and> base_scale r = 1)
      \<and> length (planes_of b (committed (snd (reset_single_bot e d b)))) \<le> 5
      \<and> (\<forall>p \<in> set (planes_of b (committed (snd (reset_single_bot e d b)))).
            plane_condition p = 100 \<and> \<not> plane_is_sold p))
   \<and> (success (fst (create_bot e d req))
       \<and> profiles_of (next_airline_id e) d = [] \<and> bases_of (next_airline_id e) d = []
       \<and> planes_of (next_airline_id e) d = [] \<longrightarrow>
      created_airline_id (fst (create_bot e d req)) = Some (next_airline_id e)
      \<and> (\<forall>i \<in> set (profiles_of (next_airline_id e) (committed (snd (create_bot e d req)))).
          info_balance i = 200000 \<and> info_reputation i = 0 \<and> info_service_quality i = 50)
      \<and> length (profiles_of (next_airline_id e) (committed (snd (create_bot e d req)))) = 1
      \<and> length (bases_of (next_airline_id e) (committed (snd (create_bot e d req)))) = 1
      \<and> (\<forall>r \<in> set (bases_of (next_airline_id e) (committed (snd (create_bot e d req)))).
            base_headquarter r \<and> base_scale r = 1)
      \<and> length (planes_of (next_airline_id e) (committed (snd (create_bot e d req)))) \<le> 5
      \<and> (\<forall>p \<in> set (planes_of (next_airline_id e) (committed (snd (create_bot e d req)))).
            plane_condition p = 100 \<and> \<not> plane_is_sold p))"
proof (intro conjI impI)
  assume "success (fst (reset_single_bot e d b)) \<and> (\<forall>ap \<in> set (airport d). airport_id ap \<noteq> 0)"
  then have ok: "success (fst (reset_single_bot e d b))"
    and ids: "\<forall>ap \<in> set (airport d). airport_id ap \<noteq> 0" by simp_all
  from ok obtain abot where
    found: "fetchone (select_airline b d) = Some abot" and
    D: "committed (snd (reset_single_bot e d b)) =
           fold apply_stmt (reset_stmts e d b (infer_country abot)) d"
    by (rule reset_single_bot_success)
  have P: "profiles_of b (committed (snd (reset_single_bot e d b)))
      = map (reset_row b (infer_country abot)) (profiles_of b d)"
    by (simp add: profiles_of_def D reset_stmts_def profiles_after_rebuild)
  have B: "bases_of b (committed (snd (reset_single_bot e d b)))
      = hq_rows b (infer_country abot) (current_cycle d) d"
    by (simp add: bases_of_def D reset_stmts_def bases_after_rebuild)
  have A: "planes_of b (committed (snd (reset_single_bot e d b)))
      = fleet (random_numbers e) (next_airplane_id e) (cheap_models d) b (current_cycle d)
          (hq_airport_of (infer_country abot) d)"
    by (simp add: planes_of_def D reset_stmts_def planes_after_rebuild)
    show "\<forall>i \<in> set (profiles_of b (committed (snd (reset_single_bot e d b)))).
          info_balance i = 200000 \<and> info_reputation i = 0 \<and> info_service_quality i = 50"
      unfolding P by (auto simp: profiles_of_def reset_row_fields)
    show "length (profiles_of b (committed (snd (reset_single_bot e d b)))) = length (profiles_of b d)"
      unfolding P by simp
    show "\<exists>abot. fetchone (select_airline b d) = Some abot
            \<and> length (bases_of b (committed (snd (reset_single_bot e d b))))
               = (if hq_airport_of (infer_country abot) d = None then 0 else 1)"
      using found B hq_rows_count [OF ids] by auto
    show "\<forall>r \<in> set (bases_of b (committed (snd (reset_single_bot e d b)))).
            base_headquarter r \<and> base_scale r = 1"
      unfolding B using hq_rows_fields by blast
    show "length (planes_of b (committed (snd (reset_single_bot e d b)))) \<le> 5"
      unfolding A by (simp add: length_fleet)
    show "\<forall>p \<in> set (planes_of b (committed (snd (reset_single_bot e d b)))).
            plane_condition p = 100 \<and> \<not> plane_is_sold p"
      unfolding A using fleet_fields by blast
next
  assume "success (fst (create_bot e d req))
       \<and> profiles_of (next_airline_id e) d = [] \<and> bases_of (next_airline_id e) d = []
       \<and> planes_of (next_airline_id e) d = []"
  then have ok: "success (fst (create_bot e d req))"
    and fresh: "profiles_of (next_airline_id e) d = []" "bases_of (next_airline_id e) d = []"
      "planes_of (next_airline_id e) d = []" by simp_all
  from ok obtain hq cc where
    D: "committed (snd (create_bot e d req)) =
           fold apply_stmt (create_stmts e d (requested_name req) hq cc) d" and
    resp: "fst (create_bot e d req) =
           \<lparr>success = True, http_status = 200,
            message = created_message (requested_name req) (next_airline_id e) cc
               (min 5 (length (cheap_models d))),
            bots_reset = None, created_airline_id = Some (next_airline_id e)\<rparr>"
    by (rule create_bot_success)
  have P: "profiles_of (next_airline_id e) (committed (snd (create_bot e d req)))
      = [new_info (next_airline_id e) cc]"
    using fresh(1) by (simp add: profiles_of_def D created_tables new_info_def)
  have B: "bases_of (next_airline_id e) (committed (snd (create_bot e d req)))
      = [new_base hq (next_airline_id e) (current_cycle d) cc]"
    using fresh(2) by (simp add: bases_of_def D created_tables new_base_def)
  have A: "planes_of (next_airline_id e) (committed (snd (create_bot e d req)))
      = fleet (random_numbers e) (next_airplane_id e) (cheap_models d) (next_airline_id e)
               (current_cycle d) (Some hq)"
    using fresh(3) by (simp add: planes_of_def D created_tables fleet_def filter_owner_numbered)
  show "created_airline_id (fst (create_bot e d req)) = Some (next_airline_id e)"
    by (simp add: resp)
  show "\<forall>i \<in> set (profiles_of (next_airline_id e) (committed (snd (create_bot e d req)))).
          info_balance i = 200000 \<and> info_reputation i = 0 \<and> info_service_quality i = 50"
    unfolding P by (simp add: new_info_def)
  show "length (profiles_of (next_airline_id e) (committed (snd (create_bot e d req)))) = 1"
    unfolding P by simp
  show "length (bases_of (next_airline_id e) (committed (snd (create_bot e d req)))) = 1"
    unfolding B by simp
  show "\<forall>r \<in> set (bases_of (next_airline_id e) (committed (snd (create_bot e d req)))).
            base_headquarter r \<and> base_scale r = 1"
    unfolding B by (simp add: new_base_def)
  show "length (planes_of (next_airline_id e) (committed (snd (create_bot e d req)))) \<le> 5"
    unfolding A by (simp add: length_fleet)
  show "\<forall>p \<in> set (planes_of (next_airline_id e) (committed (snd (create_bot e d req)))).
            plane_condition p = 100 \<and> \<not> plane_is_sold p"
    unfolding A using fleet_fields by blast
qed


theorem provisioned_state_witness:
  "success (fst (reset_single_bot (example_env None) example_db 1))
   \<and> \<not> (\<exists>ap \<in> set (airport example_db). airport_id ap = 0)
   \<and> map info_balance (profiles_of 1 example_db) = [5]
   \<and> map info_balance (profiles_of 1 (committed (snd (reset_single_bot (example_env None) example_db 1))))
       = [200000]
   \<and> \<not> (\<exists>i \<in> set (profiles_of 1 (committed (snd (reset_single_bot (example_env None) example_db 1)))).
          info_reputation i \<noteq> 0 \<or> info_service_quality i \<noteq> 50)
   \<and> map base_airport (bases_of 1 (committed (snd (reset_single_bot (example_env None) example_db 1))))
       = [7]
   \<and> \<not> (\<exists>r \<in> set (bases_of 1 (committed (snd (reset_single_bot (example_env None) example_db 1)))).
          \<not> base_headquarter r \<or> base_scale r \<noteq> 1)
   \<and> length (planes_of 1 (committed (snd (reset_single_bot (example_env None) example_db 1)))) \<le> 5
   \<and> \<not> (\<exists>p \<in> set (planes_of 1 (committed (snd (reset_single_bot (example_env None) example_db 1)))).
          plane_condition p \<noteq> 100 \<or> plane_is_sold p)
   \<and> success (fst (create_bot (example_env None) example_db
        \<lparr>req_name = Some ''Nova'', req_country_code = Some ''FR'', req_airport_iata = None\<rparr>))
   \<and> profiles_of 5 example_db = [] \<and> bases_of 5 example_db = [] \<and> planes_of 5 example_db = []
   \<and> created_airline_id (fst (create_bot (example_env None) example_db
        \<lparr>req_name = Some ''Nova'', req_country_code = Some ''FR'', req_airport_iata = None\<rparr>)) = Some 5
   \<and> length (profiles_of 5 (committed (snd (create_bot (example_env None) example_db
        \<lparr>req_name = Some ''Nova'', req_country_code = Some ''FR'', req_airport_iata = None\<rparr>)))) = 1
   \<and> length (bases_of 5 (committed (snd (create_bot (example_env None) example_db
        \<lparr>req_name = Some ''Nova'', req_country_code = Some ''FR'', req_airport_iata = None\<rparr>)))) = 1
   \<and> \<not> (\<exists>p \<in> set (planes_of 5 (committed (snd (create_bot (example_env None) example_db
        \<lparr>req_name = Some ''Nova'', req_country_code = Some ''FR'', req_airport_iata = None\<rparr>)))).
          plane_condition p \<noteq> 100 \<or> plane_is_sold p)"
proof -
  let ?req = "\<lparr>req_name = Some ''Nova'', req_country_code = Some ''FR'', req_airport_iata = None\<rparr>"
  have ok: "success (fst (reset_single_bot (example_env None) example_db 1))"
    by code_simp
  have ids: "\<forall>ap \<in> set (airport example_db). airport_id ap \<noteq> 0"
    by code_simp
  have before: "map info_balance (profiles_of 1 example_db) = [5]"
    by code_simp
  have after: "map info_balance (profiles_of 1 (committed (snd (reset_single_bot (example_env None) example_db 1))))
       = [200000]"
    by code_simp
  have hq: "map base_airport (bases_of 1 (committed (snd (reset_single_bot (example_env None) example_db 1))))
       = [7]"
    by code_simp
  have okc: "success (fst (create_bot (example_env None) example_db ?req))"
    by code_simp
  have fresh: "profiles_of 5 example_db = [] \<and> bases_of 5 example_db = [] \<and> planes_of 5 example_db = []"
    by code_simp
  have e: "next_airline_id (example_env None) = 5"
    by (simp add: example_env_def)
  note t = provisioned_state [of "example_env None" example_db 1 ?req, unfolded e]
  from t ok ids have r: "(\<forall>i \<in> set (profiles_of 1 (committed (snd (reset_single_bot (example_env None) example_db 1)))).
          info_balance i = 200000 \<and> info_reputation i = 0 \<and> info_service_quality i = 50)
      \<and> (\<forall>r \<in> set (bases_of 1 (committed (snd (reset_single_bot (example_env None) example_db 1)))).
            base_headquarter r \<and> base_scale r = 1)
      \<and> length (planes_of 1 (committed (snd (reset_single_bot (example_env None) example_db 1)))) \<le> 5
      \<and> (\<forall>p \<in> set (planes_of 1 (committed (snd (reset_single_bot (example_env None) example_db 1)))).
            plane_condition p = 100 \<and> \<not> plane_is_sold p)"
    by blast
  from t okc fresh have c: "created_airline_id (fst (create_bot (example_env None) example_db ?req)) = Some 5
      \<and> length (profiles_of 5 (committed (snd (create_bot (example_env None) example_db ?req)))) = 1
      \<and> length (bases_of 5 (committed (snd (create_bot (example_env None) example_db ?req)))) = 1
      \<and> (\<forall>p \<in> set (planes_of 5 (committed (snd (create_bot (example_env None) example_db ?req)))).
            plane_condition p = 100 \<and> \<not> plane_is_sold p)"
    by blast
  from ok ids before after hq okc fresh r c show ?thesis
    by blast
qed


subsection \<open>What a single reset reports about the headquarters\<close>

text \<open>
  C8. Airline 2 of the example has no stored country code and a name that the name table
  does not match. Its reset succeeds and leaves it without a base, and the message of the
  response still reads \<^verbatim>\<open>Created new HQ.\<close>: the text of line 1241 is fixed. The batch
  reset of the same database counts the headquarters it created (one, for airline 1).
\<close>

theorem reset_single_bot_reports_hq_when_none:
  "fetchone (select_airline 2 example_db)
       = Some \<lparr>bot_id = 2, bot_name = ''Zed Air'', bot_airline_type = 2, bot_country_code = None\<rparr>
   \<and> get_country_for_airline ''Zed Air'' = None
   \<and> success (fst (reset_single_bot (example_env None) example_db 2))
   \<and> bases_of 2 (committed (snd (reset_single_bot (example_env None) example_db 2))) = []
   \<and> message (fst (reset_single_bot (example_env None) example_db 2))
       = [Lit ''Reset bot airline '', Lit ''Zed Air'', Lit ''. Deleted '', Num 0,
          Lit '' routes, '', Num 0, Lit '' aircraft, '', Num 0,
          Lit '' bases. Created new HQ. Added '', Num 2,
          Lit '' new aircraft. Balance reset to $200,000, reputation to 0.'']
   \<and> message (fst (reset_bots (example_env None) example_db))
       = [Lit ''Reset '', Num 3, Lit '' bot airlines. Deleted '', Num 1, Lit '' routes, '',
          Num 1, Lit '' aircraft, '', Num 1, Lit '' bases. Created '', Num 1,
          Lit '' HQs. Added '', Num 6,
          Lit '' new aircraft. Balance reset to $200,000, reputation to 0.'']"
  by code_simp

end
